theory Spec2Isabelle
  imports Main "HOL-Library.Multiset"
begin

section \<open>JavaScript values\<close>

text \<open>
  Request bodies and stored documents hold JavaScript values. A number is an integer that
  is a double (ids, ages and week numbers are whole numbers here); where the code does
  arithmetic on numbers, the rounding of doubles is written out. A string is the list of
  the bytes of its UTF-8 text.
\<close>

datatype jsval = JUndefined | JNull | JBool bool | JNum int | JStr string

text \<open>Truthiness, as used by \<^verbatim>\<open>!x\<close>, \<^verbatim>\<open>if (x)\<close> and \<^verbatim>\<open>x || y\<close>.\<close>

fun truthy :: "jsval \<Rightarrow> bool" where
  "truthy JUndefined = False"
| "truthy JNull = False"
| "truthy (JBool b) = b"
| "truthy (JNum n) = (n \<noteq> 0)"
| "truthy (JStr s) = (s \<noteq> [])"

text \<open>\<^verbatim>\<open>a || b\<close>\<close>

definition or_else :: "jsval \<Rightarrow> jsval \<Rightarrow> jsval" where
  "or_else a b = (if truthy a then a else b)"

text \<open>\<^verbatim>\<open>x !== undefined && x !== null\<close>\<close>

definition defined :: "jsval \<Rightarrow> bool" where
  "defined v = (v \<noteq> JUndefined \<and> v \<noteq> JNull)"

subsection \<open>Strings\<close>

text \<open>\<^verbatim>\<open>s.startsWith(p)\<close>, written with the prefix first.\<close>

fun starts_with :: "string \<Rightarrow> string \<Rightarrow> bool" where
  "starts_with [] s = True"
| "starts_with (p # ps) [] = False"
| "starts_with (p # ps) (c # cs) = (p = c \<and> starts_with ps cs)"

text \<open>\<^verbatim>\<open>s.includes(sub)\<close>\<close>

fun js_includes :: "string \<Rightarrow> string \<Rightarrow> bool" where
  "js_includes [] sub = (sub = [])"
| "js_includes (c # cs) sub = (starts_with sub (c # cs) \<or> js_includes cs sub)"

text \<open>
  \<^verbatim>\<open>String(n)\<close> for a whole number, and \<^verbatim>\<open>s.padStart(n, c)\<close>. \<^verbatim>\<open>String\<close> prints
  every digit of a whole number below \<open>10 ^ 21\<close> in magnitude, as \<open>js_string_of_int\<close> does;
  from \<open>10 ^ 21\<close> on it uses exponent notation, which is not modelled. The properties below
  read the digits of numbers between 0 and 99 only.
\<close>

definition digit_char :: "nat \<Rightarrow> char" where
  "digit_char d = ''0123456789'' ! d"

fun digits :: "nat \<Rightarrow> string" where
  "digits n = (if n < 10 then [digit_char n] else digits (n div 10) @ [digit_char (n mod 10)])"

declare digits.simps [simp del]

definition js_string_of_int :: "int \<Rightarrow> string" where
  "js_string_of_int i = (if i < 0 then CHR ''-'' # digits (nat (- i)) else digits (nat i))"

definition padStart :: "nat \<Rightarrow> char \<Rightarrow> string \<Rightarrow> string" where
  "padStart n c s = replicate (n - length s) c @ s"

section \<open>Data model\<close>

text \<open>One entry of a student's \<^verbatim>\<open>weeks\<close> array.\<close>

record week_record =
  week :: int
  attended :: bool
  lastAttendance :: jsval
  lastAttendanceCenter :: jsval
  hwDone :: bool
  paidSession :: bool
  quizDegree :: jsval
  message_state :: bool

text \<open>
  A document of the \<^verbatim>\<open>students\<close> collection. The field \<^verbatim>\<open>id\<close> is called \<open>sid\<close>
  here; \<open>weeks\<close> is \<open>None\<close> when the document has no \<^verbatim>\<open>weeks\<close> field.
\<close>

record student =
  sid :: int
  name :: jsval
  age :: jsval
  grade :: jsval
  school :: jsval
  phone :: jsval
  parentsPhone :: jsval
  main_center :: jsval
  center :: jsval
  weeks :: "week_record list option"

text \<open>A document of the \<^verbatim>\<open>history\<close> collection: \<^verbatim>\<open>{studentId, week}\<close>.\<close>

record history_record =
  h_studentId :: int
  h_week :: int

text \<open>A document of the \<^verbatim>\<open>assistants\<close> collection.\<close>

record assistant =
  a_id :: string
  a_name :: string
  a_phone :: string
  a_password :: string
  a_role :: string

text \<open>The document store: three collections, each in insertion order.\<close>

record db =
  students :: "student list"
  history :: "history_record list"
  assistants :: "assistant list"

subsection \<open>Collection operations\<close>

text \<open>
  \<^verbatim>\<open>updateOne(filter, {$set: ...})\<close> changes the first matching document and reports
  \<^verbatim>\<open>matchedCount\<close>; \<^verbatim>\<open>findOne\<close> is \<^const>\<open>find\<close>; \<^verbatim>\<open>deleteMany\<close> removes every match.
\<close>

fun update_first :: "('a \<Rightarrow> bool) \<Rightarrow> ('a \<Rightarrow> 'a) \<Rightarrow> 'a list \<Rightarrow> 'a list" where
  "update_first p f [] = []"
| "update_first p f (x # xs) = (if p x then f x # xs else x # update_first p f xs)"

definition updateOne :: "('a \<Rightarrow> bool) \<Rightarrow> ('a \<Rightarrow> 'a) \<Rightarrow> 'a list \<Rightarrow> nat \<times> 'a list" where
  "updateOne p f xs = ((if find p xs = None then 0 else 1), update_first p f xs)"

fun delete_first :: "('a \<Rightarrow> bool) \<Rightarrow> 'a list \<Rightarrow> 'a list" where
  "delete_first p [] = []"
| "delete_first p (x # xs) = (if p x then xs else x # delete_first p xs)"

definition deleteOne :: "('a \<Rightarrow> bool) \<Rightarrow> 'a list \<Rightarrow> nat \<times> 'a list" where
  "deleteOne p xs = ((if find p xs = None then 0 else 1), delete_first p xs)"

definition deleteMany :: "('a \<Rightarrow> bool) \<Rightarrow> 'a list \<Rightarrow> 'a list" where
  "deleteMany p xs = filter (\<lambda>x. \<not> p x) xs"

definition insertOne :: "'a \<Rightarrow> 'a list \<Rightarrow> 'a list" where
  "insertOne x xs = xs @ [x]"

text \<open>
  \<^verbatim>\<open>$set\<close> on the path \<^verbatim>\<open>weeks.<i>.<field>\<close> of one student, for a position inside
  the array.
\<close>

definition set_week :: "nat \<Rightarrow> (week_record \<Rightarrow> week_record) \<Rightarrow> student \<Rightarrow> student" where
  "set_week i f s =
     (case weeks s of
        None \<Rightarrow> s
      | Some ws \<Rightarrow> s\<lparr>weeks := Some (ws[i := f (ws ! i)])\<rparr>)"

section \<open>Requests and responses\<close>

datatype http_method = GET | POST | PUT | DELETE | OTHER

record 'b request =
  req_method :: http_method
  req_authorization :: "string option"
  req_body :: 'b

text \<open>The decoded token payload, as the login handler signs it.\<close>

record claims =
  assistant_id :: string
  claim_name :: string
  role :: string

text \<open>
  \<^verbatim>\<open>jwt.verify(token, JWT_SECRET)\<close> belongs to the token library: it is a parameter
  of every handler, giving \<open>Inr\<close> the payload, or \<open>Inl\<close> the message of the error it throws.
\<close>

type_synonym verifier = "string \<Rightarrow> string + claims"

text \<open>The messages of the token library for a bad signature and an expired token.\<close>

definition invalid_signature :: string where
  "invalid_signature = ''invalid signature''"

definition jwt_expired :: string where
  "jwt_expired = ''jwt expired''"

text \<open>\<^verbatim>\<open>auth.split(' ')[1]\<close> for a header that contains a space.\<close>

definition bearer_token :: "string \<Rightarrow> string" where
  "bearer_token auth =
     takeWhile (\<lambda>c. c \<noteq> CHR '' '') (tl (dropWhile (\<lambda>c. c \<noteq> CHR '' '') auth))"

text \<open>The rows and views that responses carry.\<close>

record student_view =
  v_id :: int
  v_name :: jsval
  v_grade :: jsval
  v_phone :: jsval
  v_parents_phone :: jsval
  v_center :: jsval
  v_main_center :: jsval
  v_attended_the_session :: bool
  v_lastAttendance :: jsval
  v_lastAttendanceCenter :: jsval
  v_attendanceWeek :: string
  v_hwDone :: bool
  v_paidSession :: bool
  v_quizDegree :: jsval
  v_school :: jsval
  v_age :: jsval
  v_message_state :: bool
  v_weeks :: "week_record list"

record history_row =
  r_studentId :: int
  r_week :: int
  r_main_center :: jsval
  r_center :: jsval
  r_attendanceDate :: jsval
  r_hwDone :: bool
  r_paidSession :: bool
  r_quizDegree :: jsval
  r_message_state :: bool

record history_group =
  g_id :: int
  g_name :: jsval
  g_grade :: jsval
  g_school :: jsval
  g_phone :: jsval
  g_parentsPhone :: jsval
  g_historyRecords :: "history_row list"

record assistant_view =
  av_id :: string
  av_name :: string
  av_phone :: string
  av_role :: string

datatype body =
    ErrorBody string
  | Success
  | SuccessMessage string
  | NewId int
  | StudentBody student_view
  | StudentsBody "student_view list"
  | HistoryBody "history_group list"
  | AssistantBody assistant_view
  | AssistantsBody "assistant list"

type_synonym response = "nat \<times> body"

section \<open>Auth gate\<close>

text \<open>\<^verbatim>\<open>authMiddleware\<close> of the student handlers: \<open>Inl\<close> is the message of the thrown error.\<close>

definition authMiddleware :: "verifier \<Rightarrow> string option \<Rightarrow> string + claims" where
  "authMiddleware verify auth =
     (case auth of
        None \<Rightarrow> Inl ''Unauthorized - No Bearer token''
      | Some a \<Rightarrow>
          if \<not> starts_with ''Bearer '' a then Inl ''Unauthorized - No Bearer token''
          else (case verify (bearer_token a) of
                  Inl m \<Rightarrow> Inl (''Invalid token - '' @ m)
                | Inr decoded \<Rightarrow> Inr decoded))"

text \<open>The \<^verbatim>\<open>catch\<close> block of the student handlers; \<open>fallback\<close> is the text of the 500 answer.\<close>

definition student_catch :: "string \<Rightarrow> string \<Rightarrow> response" where
  "student_catch fallback msg =
     (if js_includes msg ''Unauthorized'' \<or> js_includes msg ''Invalid token''
      then (401, ErrorBody msg)
      else (500, ErrorBody fallback))"

text \<open>\<^verbatim>\<open>requireAdmin\<close> of the assistant handlers: the error of the token library is rethrown as it is.\<close>

definition requireAdmin :: "verifier \<Rightarrow> string option \<Rightarrow> string + claims" where
  "requireAdmin verify auth =
     (case auth of
        None \<Rightarrow> Inl ''Unauthorized''
      | Some a \<Rightarrow>
          if \<not> starts_with ''Bearer '' a then Inl ''Unauthorized''
          else (case verify (bearer_token a) of
                  Inl m \<Rightarrow> Inl m
                | Inr decoded \<Rightarrow>
                    if role decoded \<noteq> ''admin'' then Inl ''Forbidden: Admins only''
                    else Inr decoded))"

text \<open>The \<^verbatim>\<open>catch\<close> block of the assistant handlers.\<close>

definition assistant_catch :: "string \<Rightarrow> response" where
  "assistant_catch msg =
     (if msg = ''Unauthorized'' then (401, ErrorBody ''Unauthorized'')
      else if msg = ''Forbidden: Admins only'' then (403, ErrorBody ''Forbidden: Admins only'')
      else (500, ErrorBody ''Internal server error''))"

section \<open>Student record service\<close>

subsection \<open>Zeroed weeks\<close>

definition zero_week :: "int \<Rightarrow> week_record" where
  "zero_week i =
     \<lparr>week = i, attended = False, lastAttendance = JNull, lastAttendanceCenter = JNull,
      hwDone = False, paidSession = False, quizDegree = JNull, message_state = False\<rparr>"

text \<open>\<^verbatim>\<open>for (let i = 1; i <= 20; i++) weeks.push({...})\<close>\<close>

definition zero_weeks :: "week_record list" where
  "zero_weeks = map zero_week [1..20]"

subsection \<open>Toggle attendance\<close>

text \<open>
  The body of the attend request. \<^verbatim>\<open>attendanceWeek\<close> is a number or absent
  (\<open>None\<close>); the other fields are any value.
\<close>

record attend_body =
  b_attended :: jsval
  b_lastAttendance :: jsval
  b_lastAttendanceCenter :: jsval
  b_attendanceWeek :: "int option"

text \<open>\<^verbatim>\<open>attendanceWeek || 1\<close>\<close>

definition week_number :: "int option \<Rightarrow> int" where
  "week_number aw = (case aw of None \<Rightarrow> 1 | Some n \<Rightarrow> if n = 0 then 1 else n)"

text \<open>\<^verbatim>\<open>!student.weeks || student.weeks.length <= weekIndex\<close>\<close>

definition week_out_of_bounds :: "student \<Rightarrow> int \<Rightarrow> bool" where
  "week_out_of_bounds s weekIndex =
     (case weeks s of None \<Rightarrow> True | Some ws \<Rightarrow> int (length ws) \<le> weekIndex)"

definition mark_attended :: "jsval \<Rightarrow> jsval \<Rightarrow> week_record \<Rightarrow> week_record" where
  "mark_attended la lac w =
     w\<lparr>attended := True, lastAttendance := or_else la JNull,
       lastAttendanceCenter := or_else lac JNull\<rparr>"

definition mark_unattended :: "week_record \<Rightarrow> week_record" where
  "mark_unattended w =
     w\<lparr>attended := False, lastAttendance := JNull, lastAttendanceCenter := JNull,
       hwDone := False, paidSession := False, quizDegree := JNull, message_state := False\<rparr>"

text \<open>
  The attend handler. A negative array position in the \<^verbatim>\<open>$set\<close> path is rejected by
  the store with a write error, which reaches the \<^verbatim>\<open>catch\<close> block before any history
  write.
\<close>

definition attend_handler ::
  "verifier \<Rightarrow> int \<Rightarrow> attend_body request \<Rightarrow> db \<Rightarrow> response \<times> db" where
  "attend_handler verify student_id req d =
     (if req_method req \<noteq> POST then ((405, ErrorBody ''Method not allowed''), d)
      else case authMiddleware verify (req_authorization req) of
        Inl msg \<Rightarrow> (student_catch ''Internal server error'' msg, d)
      | Inr user \<Rightarrow>
          (case find (\<lambda>s. sid s = student_id) (students d) of
             None \<Rightarrow> ((404, ErrorBody ''Student not found''), d)
           | Some student \<Rightarrow>
               let weekNumber = week_number (b_attendanceWeek (req_body req));
                   weekIndex = weekNumber - 1
               in
               if week_out_of_bounds student weekIndex
               then ((400, ErrorBody ''Invalid week number''), d)
               else if weekIndex < 0
               then (student_catch ''Internal server error'' ''Cannot create field'', d)
               else if truthy (b_attended (req_body req)) then
                 (let (matched, ss) =
                        updateOne (\<lambda>s. sid s = student_id)
                          (set_week (nat weekIndex)
                             (mark_attended (b_lastAttendance (req_body req))
                                (b_lastAttendanceCenter (req_body req))))
                          (students d)
                  in if matched = 0 then ((404, ErrorBody ''Student not found''), d\<lparr>students := ss\<rparr>)
                     else ((200, Success),
                           d\<lparr>students := ss,
                             history := insertOne
                               \<lparr>h_studentId = sid student, h_week = weekNumber\<rparr> (history d)\<rparr>))
               else
                 (let (matched, ss) =
                        updateOne (\<lambda>s. sid s = student_id)
                          (set_week (nat weekIndex) mark_unattended) (students d)
                  in if matched = 0 then ((404, ErrorBody ''Student not found''), d\<lparr>students := ss\<rparr>)
                     else ((200, Success),
                           d\<lparr>students := ss,
                             history := deleteMany
                               (\<lambda>h. h_studentId h = student_id \<and> h_week h = weekNumber)
                               (history d)\<rparr>))))"

subsection \<open>Reset\<close>

definition reset_handler :: "verifier \<Rightarrow> int \<Rightarrow> unit request \<Rightarrow> db \<Rightarrow> response \<times> db" where
  "reset_handler verify studentId req d =
     (if req_method req \<noteq> POST then ((405, ErrorBody ''Method not allowed''), d)
      else case authMiddleware verify (req_authorization req) of
        Inl msg \<Rightarrow> (student_catch ''Internal server error'' msg, d)
      | Inr user \<Rightarrow>
          (case find (\<lambda>s. sid s = studentId) (students d) of
             None \<Rightarrow> ((404, ErrorBody ''Student not found''), d)
           | Some student \<Rightarrow>
               (let (matched, ss) =
                      updateOne (\<lambda>s. sid s = studentId) (\<lambda>s. s\<lparr>weeks := Some zero_weeks\<rparr>)
                        (students d)
                in if matched = 0 then ((404, ErrorBody ''Student not found''), d\<lparr>students := ss\<rparr>)
                   else ((200, SuccessMessage ''Student data reset successfully''),
                         d\<lparr>students := ss\<rparr>))))"

subsection \<open>The current-week view\<close>

text \<open>
  \<^verbatim>\<open>student.weeks ? student.weeks.find(w => w.attended) || student.weeks[0] : {week: 1, ...}\<close>.
  The result is \<open>None\<close> when it is \<^verbatim>\<open>undefined\<close> (an empty \<^verbatim>\<open>weeks\<close> array): reading
  a field of it throws.
\<close>

definition current_week :: "student \<Rightarrow> week_record option" where
  "current_week s =
     (case weeks s of
        None \<Rightarrow> Some (zero_week 1)
      | Some ws \<Rightarrow>
          (case find attended ws of
             Some w \<Rightarrow> Some w
           | None \<Rightarrow> (case ws of [] \<Rightarrow> None | w # _ \<Rightarrow> Some w)))"

text \<open>\<^verbatim>\<open>`week ${String(currentWeek.week).padStart(2, '0')}`\<close>\<close>

definition week_label :: "int \<Rightarrow> string" where
  "week_label n = ''week '' @ padStart 2 (CHR ''0'') (js_string_of_int n)"

text \<open>The response object of both student reads; \<open>la\<close> is the \<^verbatim>\<open>lastAttendance\<close> to show.\<close>

definition flatten_student :: "student \<Rightarrow> week_record \<Rightarrow> jsval \<Rightarrow> student_view" where
  "flatten_student s currentWeek la =
     \<lparr>v_id = sid s, v_name = name s, v_grade = grade s, v_phone = phone s,
      v_parents_phone = parentsPhone s, v_center = center s, v_main_center = main_center s,
      v_attended_the_session = attended currentWeek,
      v_lastAttendance = la,
      v_lastAttendanceCenter = lastAttendanceCenter currentWeek,
      v_attendanceWeek = week_label (week currentWeek),
      v_hwDone = hwDone currentWeek,
      v_paidSession = paidSession currentWeek,
      v_quizDegree = quizDegree currentWeek,
      v_school = or_else (school s) JNull,
      v_age = or_else (age s) JNull,
      v_message_state = message_state currentWeek,
      v_weeks = (case weeks s of None \<Rightarrow> [] | Some ws \<Rightarrow> ws)\<rparr>"

text \<open>The first match of \<^verbatim>\<open>/(\d{2})[-/](\d{2})[-/](\d{4})/\<close> in a string.\<close>

definition is_digit :: "char \<Rightarrow> bool" where
  "is_digit c = (c \<in> set ''0123456789'')"

definition is_sep :: "char \<Rightarrow> bool" where
  "is_sep c = (c = CHR ''-'' \<or> c = CHR ''/'')"

definition date_at :: "string \<Rightarrow> (string \<times> string \<times> string) option" where
  "date_at s =
     (if 10 \<le> length s \<and> list_all is_digit (take 2 s) \<and> is_sep (s ! 2)
         \<and> list_all is_digit (take 2 (drop 3 s)) \<and> is_sep (s ! 5)
         \<and> list_all is_digit (take 4 (drop 6 s))
      then Some (take 2 s, take 2 (drop 3 s), take 4 (drop 6 s))
      else None)"

fun date_match :: "string \<Rightarrow> (string \<times> string \<times> string) option" where
  "date_match [] = None"
| "date_match (c # cs) =
     (case date_at (c # cs) of Some r \<Rightarrow> Some r | None \<Rightarrow> date_match cs)"

text \<open>A value inside a template literal.\<close>

fun js_to_string :: "jsval \<Rightarrow> string" where
  "js_to_string JUndefined = ''undefined''"
| "js_to_string JNull = ''null''"
| "js_to_string (JBool b) = (if b then ''true'' else ''false'')"
| "js_to_string (JNum n) = js_string_of_int n"
| "js_to_string (JStr s) = s"

text \<open>
  The \<^verbatim>\<open>lastAttendance\<close> of the read of one student. \<open>None\<close> is the TypeError of
  calling \<^verbatim>\<open>.match\<close> on a value that is not a string.
\<close>

definition format_lastAttendance :: "week_record \<Rightarrow> jsval option" where
  "format_lastAttendance currentWeek =
     (if truthy (lastAttendance currentWeek) \<and> truthy (lastAttendanceCenter currentWeek) then
        (case lastAttendance currentWeek of
           JStr s \<Rightarrow>
             (let dateStr = (case date_match s of
                               Some (dd, mm, yyyy) \<Rightarrow> dd @ ''/'' @ mm @ ''/'' @ yyyy
                             | None \<Rightarrow> s)
              in Some (JStr (dateStr @ '' in '' @ js_to_string (lastAttendanceCenter currentWeek))))
         | _ \<Rightarrow> None)
      else Some (lastAttendance currentWeek))"

subsection \<open>One student: read, update, delete\<close>

record profile_body =
  p_name :: jsval
  p_grade :: jsval
  p_phone :: jsval
  p_parents_phone :: jsval
  p_main_center :: jsval
  p_age :: jsval
  p_school :: jsval

datatype field = FName | FGrade | FPhone | FParentsPhone | FMainCenter | FAge | FSchool

text \<open>The \<^verbatim>\<open>update\<close> object of the PUT branch, as its keys in insertion order.\<close>

definition build_update :: "profile_body \<Rightarrow> (field \<times> jsval) list" where
  "build_update b =
     (if defined (p_name b) then [(FName, p_name b)] else []) @
     (if defined (p_grade b) then [(FGrade, p_grade b)] else []) @
     (if defined (p_phone b) then [(FPhone, p_phone b)] else []) @
     (if defined (p_parents_phone b) then [(FParentsPhone, p_parents_phone b)] else []) @
     (if defined (p_main_center b) then [(FMainCenter, p_main_center b)] else []) @
     (if defined (p_age b) then [(FAge, p_age b)] else []) @
     (if defined (p_school b) then [(FSchool, p_school b)] else [])"

fun set_field :: "field \<times> jsval \<Rightarrow> student \<Rightarrow> student" where
  "set_field (FName, v) s = s\<lparr>name := v\<rparr>"
| "set_field (FGrade, v) s = s\<lparr>grade := v\<rparr>"
| "set_field (FPhone, v) s = s\<lparr>phone := v\<rparr>"
| "set_field (FParentsPhone, v) s = s\<lparr>parentsPhone := v\<rparr>"
| "set_field (FMainCenter, v) s = s\<lparr>main_center := v\<rparr>"
| "set_field (FAge, v) s = s\<lparr>age := v\<rparr>"
| "set_field (FSchool, v) s = s\<lparr>school := v\<rparr>"

definition student_handler ::
  "verifier \<Rightarrow> int \<Rightarrow> profile_body request \<Rightarrow> db \<Rightarrow> response \<times> db" where
  "student_handler verify student_id req d =
     (case authMiddleware verify (req_authorization req) of
        Inl msg \<Rightarrow> (student_catch ''Internal server error'' msg, d)
      | Inr user \<Rightarrow>
          if req_method req = GET then
            (case find (\<lambda>s. sid s = student_id) (students d) of
               None \<Rightarrow> ((404, ErrorBody ''Student not found''), d)
             | Some student \<Rightarrow>
                 (case current_week student of
                    None \<Rightarrow> (student_catch ''Internal server error'' ''Cannot read properties of undefined'', d)
                  | Some currentWeek \<Rightarrow>
                      (case format_lastAttendance currentWeek of
                         None \<Rightarrow> (student_catch ''Internal server error'' ''match is not a function'', d)
                       | Some la \<Rightarrow>
                           ((200, StudentBody (flatten_student student currentWeek la)), d))))
          else if req_method req = PUT then
            (let update = build_update (req_body req) in
             if length update = 0 then ((400, ErrorBody ''No valid fields to update''), d)
             else
               (let (matched, ss) =
                      updateOne (\<lambda>s. sid s = student_id) (fold set_field update) (students d)
                in if matched = 0 then ((404, ErrorBody ''Student not found''), d\<lparr>students := ss\<rparr>)
                   else ((200, Success), d\<lparr>students := ss\<rparr>)))
          else if req_method req = DELETE then
            (let (deleted, ss) = deleteOne (\<lambda>s. sid s = student_id) (students d)
             in if deleted = 0 then ((404, ErrorBody ''Student not found''), d\<lparr>students := ss\<rparr>)
                else ((200, Success), d\<lparr>students := ss\<rparr>))
          else ((405, ErrorBody ''Method not allowed''), d))"

subsection \<open>All students: read, create\<close>

definition map_students :: "student list \<Rightarrow> student_view list option" where
  "map_students ss =
     those (map (\<lambda>s. map_option (\<lambda>cw. flatten_student s cw (lastAttendance cw)) (current_week s)) ss)"

text \<open>\<^verbatim>\<open>find().sort({ id: -1 }).limit(1).toArray()\<close>\<close>

definition last_student :: "student list \<Rightarrow> student list" where
  "last_student ss = take 1 (sort_key (\<lambda>s. - sid s) ss)"

text \<open>
  \<^verbatim>\<open>n + 1\<close> on numbers, for a whole number \<open>n\<close> that is a double. The sum is exact from
  \<open>- (2 ^ 53)\<close> up to \<open>2 ^ 53 - 1\<close>. Beyond, doubles are 2 apart up to \<open>2 ^ 54\<close> in magnitude
  and the sum, half way between two doubles, goes to the one with the even mantissa; further
  out the sum rounds back to \<open>n\<close>.
\<close>

definition js_add1 :: "int \<Rightarrow> int" where
  "js_add1 n =
     (if - (2 ^ 53) \<le> n \<and> n < 2 ^ 53 then n + 1
      else if \<bar>n\<bar> < 2 ^ 54 \<and> odd (n div 2) then n + 2
      else n)"

text \<open>\<^verbatim>\<open>lastStudent.length > 0 ? lastStudent[0].id + 1 : 1\<close>\<close>

definition new_id :: "student list \<Rightarrow> int" where
  "new_id ss = (case last_student ss of [] \<Rightarrow> 1 | s # _ \<Rightarrow> js_add1 (sid s))"

text \<open>The validation of the POST branch.\<close>

definition missing_field :: "profile_body \<Rightarrow> bool" where
  "missing_field b =
     (\<not> truthy (p_name b) \<or> \<not> truthy (p_grade b) \<or> \<not> truthy (p_phone b)
      \<or> \<not> truthy (p_parents_phone b) \<or> \<not> truthy (p_main_center b)
      \<or> p_age b = JUndefined \<or> \<not> truthy (p_school b))"

definition new_student :: "int \<Rightarrow> profile_body \<Rightarrow> student" where
  "new_student newId b =
     \<lparr>sid = newId, name = p_name b, age = p_age b, grade = p_grade b, school = p_school b,
      phone = p_phone b, parentsPhone = p_parents_phone b, main_center = p_main_center b,
      center = JUndefined, weeks = Some zero_weeks\<rparr>"

definition students_handler ::
  "verifier \<Rightarrow> profile_body request \<Rightarrow> db \<Rightarrow> response \<times> db" where
  "students_handler verify req d =
     (case authMiddleware verify (req_authorization req) of
        Inl msg \<Rightarrow> (student_catch ''Internal server error'' msg, d)
      | Inr user \<Rightarrow>
          if req_method req = GET then
            (case map_students (students d) of
               None \<Rightarrow> (student_catch ''Internal server error'' ''Cannot read properties of undefined'', d)
             | Some mappedStudents \<Rightarrow> ((200, StudentsBody mappedStudents), d))
          else if req_method req = POST then
            (if missing_field (req_body req) then ((400, ErrorBody ''All fields are required''), d)
             else
               (let newId = new_id (students d)
                in ((200, NewId newId),
                    d\<lparr>students := insertOne (new_student newId (req_body req)) (students d)\<rparr>)))
          else ((405, ErrorBody ''Method not allowed''), d))"

subsection \<open>History read\<close>

text \<open>
  \<^verbatim>\<open>students.forEach(student => studentMap.set(student.id, student))\<close>: a later
  document with the same id replaces an earlier one.
\<close>

definition student_map :: "student list \<Rightarrow> (int \<rightharpoonup> student)" where
  "student_map ss = fold (\<lambda>s m. m(sid s \<mapsto> s)) ss Map.empty"

text \<open>
  \<^verbatim>\<open>student.weeks && student.weeks[weekIndex] ? student.weeks[weekIndex] : null\<close>;
  an index outside the array reads \<^verbatim>\<open>undefined\<close>.
\<close>

definition week_data :: "student \<Rightarrow> int \<Rightarrow> week_record option" where
  "week_data s weekIndex =
     (case weeks s of
        None \<Rightarrow> None
      | Some ws \<Rightarrow>
          if 0 \<le> weekIndex \<and> weekIndex < int (length ws) then Some (ws ! nat weekIndex)
          else None)"

definition enriched_record :: "history_record \<Rightarrow> student \<Rightarrow> week_record \<Rightarrow> history_row" where
  "enriched_record record s weekData =
     \<lparr>r_studentId = h_studentId record, r_week = h_week record,
      r_main_center = or_else (main_center s) (JStr ''n/a''),
      r_center = or_else (lastAttendanceCenter weekData) (JStr ''n/a''),
      r_attendanceDate = or_else (lastAttendance weekData) (JStr ''n/a''),
      r_hwDone = (hwDone weekData \<or> False),
      r_paidSession = (paidSession weekData \<or> False),
      r_quizDegree = or_else (quizDegree weekData) JNull,
      r_message_state = (message_state weekData \<or> False)\<rparr>"

definition new_group :: "student \<Rightarrow> history_group" where
  "new_group s =
     \<lparr>g_id = sid s, g_name = name s, g_grade = grade s, g_school = school s,
      g_phone = phone s, g_parentsPhone = parentsPhone s, g_historyRecords = []\<rparr>"

text \<open>
  \<^verbatim>\<open>studentHistoryMap\<close> keeps its keys in insertion order: a list of pairs. A row goes
  to the group of its key, which is created first when the key is new.
\<close>

fun push_row ::
  "int \<Rightarrow> history_group \<Rightarrow> history_row \<Rightarrow> (int \<times> history_group) list
   \<Rightarrow> (int \<times> history_group) list" where
  "push_row k fresh r [] = [(k, fresh\<lparr>g_historyRecords := g_historyRecords fresh @ [r]\<rparr>)]"
| "push_row k fresh r ((k', g) # m) =
     (if k' = k then (k', g\<lparr>g_historyRecords := g_historyRecords g @ [r]\<rparr>) # m
      else (k', g) # push_row k fresh r m)"

text \<open>The body of \<^verbatim>\<open>historyRecords.forEach\<close>.\<close>

definition process_record ::
  "(int \<rightharpoonup> student) \<Rightarrow> (int \<times> history_group) list \<Rightarrow> history_record
   \<Rightarrow> (int \<times> history_group) list" where
  "process_record studentMap m record =
     (case studentMap (h_studentId record) of
        None \<Rightarrow> m
      | Some student \<Rightarrow>
          (case week_data student (h_week record - 1) of
             None \<Rightarrow> m
           | Some weekData \<Rightarrow>
               if \<not> attended weekData then m
               else push_row (h_studentId record) (new_group student)
                      (enriched_record record student weekData) m))"

text \<open>\<^verbatim>\<open>Array.from(studentHistoryMap.values()).sort((a, b) => a.id - b.id)\<close>\<close>

definition history_result :: "db \<Rightarrow> history_group list" where
  "history_result d =
     sort_key g_id
       (map snd (foldl (process_record (student_map (students d))) [] (history d)))"

definition history_handler :: "verifier \<Rightarrow> unit request \<Rightarrow> db \<Rightarrow> response \<times> db" where
  "history_handler verify req d =
     (if req_method req \<noteq> GET then ((405, ErrorBody ''Method not allowed''), d)
      else case authMiddleware verify (req_authorization req) of
        Inl msg \<Rightarrow> (student_catch ''Failed to fetch history data'' msg, d)
      | Inr user \<Rightarrow> ((200, HistoryBody (history_result d)), d))"

subsection \<open>Homework, payment and quiz grade\<close>

text \<open>
  Modelled from the spec: the handlers that update homework, payment and the quiz grade
  are not among the source files (only their callers are). The spec says that each sets
  the corresponding field on the WeekRecord at the given week index, and that the service
  does not check that the week is attended. Here a week outside the student's sequence,
  or an unknown student, leaves the store as it is.
\<close>

definition update_week_field :: "int \<Rightarrow> int \<Rightarrow> (week_record \<Rightarrow> week_record) \<Rightarrow> db \<Rightarrow> db" where
  "update_week_field student_id weekNumber f d =
     d\<lparr>students :=
        update_first (\<lambda>s. sid s = student_id)
          (\<lambda>s. case weeks s of
                  None \<Rightarrow> s
                | Some ws \<Rightarrow>
                    if 1 \<le> weekNumber \<and> weekNumber \<le> int (length ws)
                    then set_week (nat (weekNumber - 1)) f s else s)
          (students d)\<rparr>"

text \<open>Modelled from the spec: the homework update sets \<^verbatim>\<open>hwDone\<close> of the given week (its handler is not among the source files).\<close>

definition update_homework :: "int \<Rightarrow> bool \<Rightarrow> int \<Rightarrow> db \<Rightarrow> db" where
  "update_homework student_id hw weekNumber = update_week_field student_id weekNumber (\<lambda>w. w\<lparr>hwDone := hw\<rparr>)"

text \<open>Modelled from the spec: the payment update sets \<^verbatim>\<open>paidSession\<close> of the given week (its handler is not among the source files).\<close>

definition update_payment :: "int \<Rightarrow> bool \<Rightarrow> int \<Rightarrow> db \<Rightarrow> db" where
  "update_payment student_id paid weekNumber = update_week_field student_id weekNumber (\<lambda>w. w\<lparr>paidSession := paid\<rparr>)"

text \<open>Modelled from the spec: the quiz grade update sets \<^verbatim>\<open>quizDegree\<close> of the given week (its handler is not among the source files).\<close>

definition update_quiz_grade :: "int \<Rightarrow> jsval \<Rightarrow> int \<Rightarrow> db \<Rightarrow> db" where
  "update_quiz_grade student_id q weekNumber = update_week_field student_id weekNumber (\<lambda>w. w\<lparr>quizDegree := q\<rparr>)"

subsection \<open>Sequences of service operations\<close>

datatype operation =
    Create "profile_body request"
  | Reset int "unit request"
  | Attend int "attend_body request"
  | Edit int "profile_body request"
  | UpdateHomework int bool int
  | UpdatePayment int bool int
  | UpdateQuizGrade int jsval int

fun exec_op :: "verifier \<Rightarrow> operation \<Rightarrow> db \<Rightarrow> db" where
  "exec_op verify (Create req) d = snd (students_handler verify req d)"
| "exec_op verify (Reset i req) d = snd (reset_handler verify i req d)"
| "exec_op verify (Attend i req) d = snd (attend_handler verify i req d)"
| "exec_op verify (Edit i req) d = snd (student_handler verify i req d)"
| "exec_op verify (UpdateHomework i hw w) d = update_homework i hw w d"
| "exec_op verify (UpdatePayment i paid w) d = update_payment i paid w d"
| "exec_op verify (UpdateQuizGrade i q w) d = update_quiz_grade i q w d"

definition run :: "verifier \<Rightarrow> operation list \<Rightarrow> db \<Rightarrow> db" where
  "run verify ops d = foldl (\<lambda>d' op. exec_op verify op d') d ops"

text \<open>The week that an update addresses exists and is not attended.\<close>

definition unattended_week :: "db \<Rightarrow> int \<Rightarrow> int \<Rightarrow> bool" where
  "unattended_week d student_id weekNumber =
     (case find (\<lambda>s. sid s = student_id) (students d) of
        None \<Rightarrow> False
      | Some s \<Rightarrow>
          (case weeks s of
             None \<Rightarrow> False
           | Some ws \<Rightarrow>
               1 \<le> weekNumber \<and> weekNumber \<le> int (length ws)
               \<and> \<not> attended (ws ! nat (weekNumber - 1))))"

text \<open>
  An update of homework, payment or quiz grade that writes a set value (\<^verbatim>\<open>true\<close>, or a
  grade other than \<^verbatim>\<open>null\<close>) to a week that is not attended.
\<close>

fun sets_unattended :: "db \<Rightarrow> operation \<Rightarrow> bool" where
  "sets_unattended d (UpdateHomework i hw w) = (hw \<and> unattended_week d i w)"
| "sets_unattended d (UpdatePayment i paid w) = (paid \<and> unattended_week d i w)"
| "sets_unattended d (UpdateQuizGrade i q w) = (q \<noteq> JNull \<and> unattended_week d i w)"
| "sets_unattended d _ = False"

text \<open>
  A sequence of operations in which no update does so, in the store that it finds when
  its turn comes.
\<close>

fun guarded :: "verifier \<Rightarrow> db \<Rightarrow> operation list \<Rightarrow> bool" where
  "guarded verify d [] = True"
| "guarded verify d (op # ops) =
     (\<not> sets_unattended d op \<and> guarded verify (exec_op verify op d) ops)"

text \<open>The invariant of a week, of a student and of the store.\<close>

definition week_ok :: "week_record \<Rightarrow> bool" where
  "week_ok w =
     (attended w \<or> (\<not> hwDone w \<and> \<not> paidSession w \<and> quizDegree w = JNull))"

definition student_ok :: "student \<Rightarrow> bool" where
  "student_ok s = (case weeks s of None \<Rightarrow> True | Some ws \<Rightarrow> list_all week_ok ws)"

definition store_ok :: "db \<Rightarrow> bool" where
  "store_ok d = list_all student_ok (students d)"

definition empty_db :: db where
  "empty_db = \<lparr>students = [], history = [], assistants = []\<rparr>"

section \<open>Assistant record service\<close>

text \<open>
  \<^verbatim>\<open>bcrypt.hash(password, 10)\<close> belongs to the hashing library: it is the parameter
  \<open>hash\<close> of the handlers. Body fields are strings or absent (\<open>None\<close>).
\<close>

record assistant_body =
  ab_id :: "string option"
  ab_name :: "string option"
  ab_phone :: "string option"
  ab_password :: "string option"
  ab_role :: "string option"

text \<open>\<^verbatim>\<open>!x\<close> for a string or an absent value.\<close>

definition blank :: "string option \<Rightarrow> bool" where
  "blank x = (case x of None \<Rightarrow> True | Some s \<Rightarrow> s = [])"

definition assistants_handler ::
  "verifier \<Rightarrow> (string \<Rightarrow> string) \<Rightarrow> assistant_body request \<Rightarrow> db \<Rightarrow> response \<times> db" where
  "assistants_handler verify hash req d =
     (case requireAdmin verify (req_authorization req) of
        Inl msg \<Rightarrow> (assistant_catch msg, d)
      | Inr admin \<Rightarrow>
          if req_method req = GET then ((200, AssistantsBody (assistants d)), d)
          else if req_method req = POST then
            (let b = req_body req in
             if blank (ab_id b) \<or> blank (ab_name b) \<or> blank (ab_phone b)
                \<or> blank (ab_password b) \<or> blank (ab_role b)
             then ((400, ErrorBody ''All fields are required''), d)
             else
               (case (ab_id b, ab_name b, ab_phone b, ab_password b, ab_role b) of
                  (Some ident, Some nm, Some ph, Some password, Some rl) \<Rightarrow>
                    if find (\<lambda>a. a_id a = ident) (assistants d) \<noteq> None
                    then ((409, ErrorBody ''Assistant ID already exists''), d)
                    else
                      (let hashedPassword = hash password
                       in ((200, Success),
                           d\<lparr>assistants := insertOne
                               \<lparr>a_id = ident, a_name = nm, a_phone = ph,
                                a_password = hashedPassword, a_role = rl\<rparr> (assistants d)\<rparr>))
                | _ \<Rightarrow> ((400, ErrorBody ''All fields are required''), d)))
          else ((405, ErrorBody ''Method not allowed''), d))"

text \<open>
  \<^verbatim>\<open>s.trim()\<close>. The white space and line terminators of the language, each as the
  bytes of its UTF-8 encoding: U+0009 to U+000D, U+0020, U+00A0, U+1680, U+2000 to U+200A,
  U+2028, U+2029, U+202F, U+205F, U+3000 and U+FEFF.
\<close>

definition white_space :: "string list" where
  "white_space =
     [[CHR 0x09], [CHR 0x0A], [CHR 0x0B], [CHR 0x0C], [CHR 0x0D], [CHR 0x20],
      [CHR 0xC2, CHR 0xA0],
      [CHR 0xE1, CHR 0x9A, CHR 0x80],
      [CHR 0xE2, CHR 0x80, CHR 0x80], [CHR 0xE2, CHR 0x80, CHR 0x81],
      [CHR 0xE2, CHR 0x80, CHR 0x82], [CHR 0xE2, CHR 0x80, CHR 0x83],
      [CHR 0xE2, CHR 0x80, CHR 0x84], [CHR 0xE2, CHR 0x80, CHR 0x85],
      [CHR 0xE2, CHR 0x80, CHR 0x86], [CHR 0xE2, CHR 0x80, CHR 0x87],
      [CHR 0xE2, CHR 0x80, CHR 0x88], [CHR 0xE2, CHR 0x80, CHR 0x89],
      [CHR 0xE2, CHR 0x80, CHR 0x8A],
      [CHR 0xE2, CHR 0x80, CHR 0xA8], [CHR 0xE2, CHR 0x80, CHR 0xA9],
      [CHR 0xE2, CHR 0x80, CHR 0xAF],
      [CHR 0xE2, CHR 0x81, CHR 0x9F],
      [CHR 0xE3, CHR 0x80, CHR 0x80],
      [CHR 0xEF, CHR 0xBB, CHR 0xBF]]"

text \<open>Dropping, from the front of a string, every leading occurrence of one of the given words.\<close>

function strip_leading :: "string list \<Rightarrow> string \<Rightarrow> string" where
  "strip_leading ws s =
     (case find (\<lambda>w. w \<noteq> [] \<and> starts_with w s) ws of
        None \<Rightarrow> s
      | Some w \<Rightarrow> strip_leading ws (drop (length w) s))"
  by pat_completeness auto
termination
proof (relation "measure (\<lambda>(ws, s). length s)")
  show "wf (measure (\<lambda>(ws, s). length s))" by simp
next
  fix ws :: "string list" and s w :: string
  assume "find (\<lambda>w. w \<noteq> [] \<and> starts_with w s) ws = Some w"
  then have w: "w \<noteq> []" and "starts_with w s" by (auto simp: find_Some_iff)
  then have "s \<noteq> []" by (cases w; cases s) auto
  with w show "((ws, drop (length w) s), (ws, s)) \<in> measure (\<lambda>(ws, s). length s)"
    by (cases w) auto
qed

declare strip_leading.simps [simp del]

definition js_trim :: "string \<Rightarrow> string" where
  "js_trim s =
     rev (strip_leading (map rev white_space) (rev (strip_leading white_space s)))"

text \<open>\<^verbatim>\<open>x !== undefined && x !== null && x.trim() !== ''\<close>\<close>

definition present :: "string option \<Rightarrow> bool" where
  "present x = (case x of None \<Rightarrow> False | Some s \<Rightarrow> js_trim s \<noteq> [])"

datatype assistant_field = AName | APhone | ARole | APassword | AId

fun set_assistant_field :: "assistant_field \<times> string \<Rightarrow> assistant \<Rightarrow> assistant" where
  "set_assistant_field (AName, v) a = a\<lparr>a_name := v\<rparr>"
| "set_assistant_field (APhone, v) a = a\<lparr>a_phone := v\<rparr>"
| "set_assistant_field (ARole, v) a = a\<lparr>a_role := v\<rparr>"
| "set_assistant_field (APassword, v) a = a\<lparr>a_password := v\<rparr>"
| "set_assistant_field (AId, v) a = a\<lparr>a_id := v\<rparr>"

definition optional_field ::
  "assistant_field \<Rightarrow> (string \<Rightarrow> string) \<Rightarrow> string option \<Rightarrow> (assistant_field \<times> string) list" where
  "optional_field k f x =
     (case x of None \<Rightarrow> [] | Some s \<Rightarrow> if js_trim s \<noteq> [] then [(k, f s)] else [])"

definition assistant_handler ::
  "verifier \<Rightarrow> (string \<Rightarrow> string) \<Rightarrow> string \<Rightarrow> assistant_body request \<Rightarrow> db
   \<Rightarrow> response \<times> db" where
  "assistant_handler verify hash ident req d =
     (case requireAdmin verify (req_authorization req) of
        Inl msg \<Rightarrow> (assistant_catch msg, d)
      | Inr admin \<Rightarrow>
          if req_method req = GET then
            (case find (\<lambda>a. a_id a = ident) (assistants d) of
               None \<Rightarrow> ((404, ErrorBody ''Assistant not found''), d)
             | Some a \<Rightarrow>
                 ((200, AssistantBody
                     \<lparr>av_id = a_id a, av_name = a_name a, av_phone = a_phone a,
                      av_role = a_role a\<rparr>), d))
          else if req_method req = PUT then
            (let b = req_body req;
                 update = optional_field AName (\<lambda>s. s) (ab_name b)
                        @ optional_field APhone (\<lambda>s. s) (ab_phone b)
                        @ optional_field ARole (\<lambda>s. s) (ab_role b)
                        @ optional_field APassword hash (ab_password b);
                 renamed = (\<not> blank (ab_id b) \<and> ab_id b \<noteq> Some ident \<and> present (ab_id b))
             in
             if renamed \<and> find (\<lambda>a. Some (a_id a) = ab_id b) (assistants d) \<noteq> None
             then ((409, ErrorBody ''Assistant ID already exists''), d)
             else
               (let update' = update @ (if renamed then optional_field AId (\<lambda>s. s) (ab_id b) else [])
                in if length update' = 0 then ((400, ErrorBody ''No valid fields to update''), d)
                   else
                     (let (matched, as) =
                            updateOne (\<lambda>a. a_id a = ident) (fold set_assistant_field update')
                              (assistants d)
                      in if matched = 0
                         then ((404, ErrorBody ''Assistant not found''), d\<lparr>assistants := as\<rparr>)
                         else ((200, Success), d\<lparr>assistants := as\<rparr>))))
          else if req_method req = DELETE then
            (let (deleted, as) = deleteOne (\<lambda>a. a_id a = ident) (assistants d)
             in if deleted = 0 then ((404, ErrorBody ''Assistant not found''), d\<lparr>assistants := as\<rparr>)
                else ((200, Success), d\<lparr>assistants := as\<rparr>))
          else ((405, ErrorBody ''Method not allowed''), d))"

section \<open>Preconditions and sample data\<close>

text \<open>
  The attend requests that reach one of the two update branches: a POST with a token that
  verifies, for a student that exists, with a week number inside the student's weeks.
\<close>

definition attend_accepted :: "verifier \<Rightarrow> int \<Rightarrow> attend_body request \<Rightarrow> db \<Rightarrow> bool" where
  "attend_accepted verify i req d =
     (req_method req = POST
      \<and> (case authMiddleware verify (req_authorization req) of Inl msg \<Rightarrow> False | Inr user \<Rightarrow> True)
      \<and> (case find (\<lambda>s. sid s = i) (students d) of
            None \<Rightarrow> False
          | Some s \<Rightarrow>
              (case weeks s of
                 None \<Rightarrow> False
               | Some ws \<Rightarrow>
                   1 \<le> week_number (b_attendanceWeek (req_body req))
                   \<and> week_number (b_attendanceWeek (req_body req)) \<le> int (length ws))))"

text \<open>A token check that accepts one token, finds a second one expired and any other forged.\<close>

definition sample_claims :: claims where
  "sample_claims = \<lparr>assistant_id = ''sara'', claim_name = ''Sara'', role = ''admin''\<rparr>"

definition sample_verify :: verifier where
  "sample_verify token =
     (if token = ''good'' then Inr sample_claims
      else if token = ''old'' then Inl jwt_expired
      else Inl invalid_signature)"

definition good_auth :: "string option" where
  "good_auth = Some ''Bearer good''"

text \<open>The student and the attend request of the examples of the specification.\<close>

definition ali :: profile_body where
  "ali = \<lparr>p_name = JStr ''Ali'', p_grade = JStr ''1st Secondary'', p_phone = JStr ''01234567891'',
          p_parents_phone = JStr ''01234567892'', p_main_center = JStr ''Giza'', p_age = JNum 16,
          p_school = JStr ''X''\<rparr>"

definition create_ali :: "profile_body request" where
  "create_ali = \<lparr>req_method = POST, req_authorization = good_auth, req_body = ali\<rparr>"

definition ali_db :: db where
  "ali_db = snd (students_handler sample_verify create_ali empty_db)"

definition attend3 :: "attend_body request" where
  "attend3 =
     \<lparr>req_method = POST, req_authorization = good_auth,
      req_body = \<lparr>b_attended = JBool True, b_lastAttendance = JStr ''01/01/2025 in Giza'',
                  b_lastAttendanceCenter = JStr ''Giza'', b_attendanceWeek = Some 3\<rparr>\<rparr>"

definition unattend3 :: "attend_body request" where
  "unattend3 =
     \<lparr>req_method = POST, req_authorization = good_auth,
      req_body = \<lparr>b_attended = JBool False, b_lastAttendance = JNull,
                  b_lastAttendanceCenter = JNull, b_attendanceWeek = Some 3\<rparr>\<rparr>"

text \<open>The store after the attend request of the example was made twice.\<close>

definition twice_db :: db where
  "twice_db = snd (attend_handler sample_verify 1 attend3
                     (snd (attend_handler sample_verify 1 attend3 ali_db)))"

text \<open>An attend request for week number \<open>- 1\<close>.\<close>

definition attend_minus1 :: "attend_body request" where
  "attend_minus1 =
     \<lparr>req_method = POST, req_authorization = good_auth,
      req_body = \<lparr>b_attended = JBool True, b_lastAttendance = JStr ''01/01/2025 in Giza'',
                  b_lastAttendanceCenter = JStr ''Giza'', b_attendanceWeek = Some (- 1)\<rparr>\<rparr>"

text \<open>Two operation sequences on the empty store.\<close>

definition homework_ops :: "operation list" where
  "homework_ops = [Create create_ali, UpdateHomework 1 True 1]"


text \<open>Sample requests for the profile update, the assistants and the token check.\<close>

definition no_fields :: profile_body where
  "no_fields = \<lparr>p_name = JUndefined, p_grade = JUndefined, p_phone = JUndefined,
                p_parents_phone = JUndefined, p_main_center = JUndefined, p_age = JUndefined,
                p_school = JUndefined\<rparr>"

definition put_nothing :: "profile_body request" where
  "put_nothing =
     \<lparr>req_method = PUT, req_authorization = good_auth,
      req_body = no_fields\<lparr>p_name := JNull, p_age := JNull\<rparr>\<rparr>"

definition put_empty_name :: "profile_body request" where
  "put_empty_name =
     \<lparr>req_method = PUT, req_authorization = good_auth,
      req_body = no_fields\<lparr>p_name := JStr ''''\<rparr>\<rparr>"

definition no_assistant_fields :: assistant_body where
  "no_assistant_fields =
     \<lparr>ab_id = None, ab_name = None, ab_phone = None, ab_password = None, ab_role = None\<rparr>"

definition create_sara :: "assistant_body request" where
  "create_sara =
     \<lparr>req_method = POST, req_authorization = good_auth,
      req_body = \<lparr>ab_id = Some ''sara'', ab_name = Some ''Sara'', ab_phone = Some ''01000000000'',
                  ab_password = Some ''secret'', ab_role = Some ''assistant''\<rparr>\<rparr>"

definition get_assistants :: "assistant_body request" where
  "get_assistants =
     \<lparr>req_method = GET, req_authorization = good_auth, req_body = no_assistant_fields\<rparr>"

definition get_forged :: "assistant_body request" where
  "get_forged =
     \<lparr>req_method = GET, req_authorization = Some ''Bearer forged'', req_body = no_assistant_fields\<rparr>"

definition get_expired :: "assistant_body request" where
  "get_expired =
     \<lparr>req_method = GET, req_authorization = Some ''Bearer old'', req_body = no_assistant_fields\<rparr>"

definition get_students_forged :: "profile_body request" where
  "get_students_forged =
     \<lparr>req_method = GET, req_authorization = Some ''Bearer forged'', req_body = no_fields\<rparr>"

text \<open>All rows of a history listing, group after group.\<close>

definition rows_of :: "history_group list \<Rightarrow> history_row list" where
  "rows_of gs = concat (map g_historyRecords gs)"

text \<open>
  The row that the body of \<^verbatim>\<open>historyRecords.forEach\<close> makes of one history record, or
  \<open>None\<close> when it returns early: the student is unknown, the week is missing, or the week
  is not attended.
\<close>

definition joined :: "(int \<rightharpoonup> student) \<Rightarrow> history_record \<Rightarrow> history_row option" where
  "joined studentMap record =
     (case studentMap (h_studentId record) of
        None \<Rightarrow> None
      | Some student \<Rightarrow>
          (case week_data student (h_week record - 1) of
             None \<Rightarrow> None
           | Some weekData \<Rightarrow>
               if attended weekData then Some (enriched_record record student weekData)
               else None))"

text \<open>
  What the history read keeps for every group of its map: the key is the id of a student of
  the map, the head of the group is that student's, and the group has rows, all of the key.
\<close>

definition group_ok :: "(int \<rightharpoonup> student) \<Rightarrow> int \<times> history_group \<Rightarrow> bool" where
  "group_ok studentMap p =
     (case studentMap (fst p) of
        None \<Rightarrow> False
      | Some s \<Rightarrow>
          (snd p)\<lparr>g_historyRecords := []\<rparr> = new_group s
          \<and> g_historyRecords (snd p) \<noteq> []
          \<and> list_all (\<lambda>r. r_studentId r = fst p) (g_historyRecords (snd p)))"

text \<open>
  A store with two students: student 1 attended week 3 (two history records), student 2
  attended week 2. Its history also holds records of student 1 for week 5 and week number 0,
  of student 2 for week 3 (not attended by student 2) and of an unknown student.
\<close>

definition mona :: profile_body where
  "mona = \<lparr>p_name = JStr ''Mona'', p_grade = JStr ''2nd Secondary'', p_phone = JStr ''01234567893'',
           p_parents_phone = JStr ''01234567894'', p_main_center = JStr ''Cairo'', p_age = JNum 17,
           p_school = JStr ''Y''\<rparr>"

definition create_mona :: "profile_body request" where
  "create_mona = \<lparr>req_method = POST, req_authorization = good_auth, req_body = mona\<rparr>"

definition attend2 :: "attend_body request" where
  "attend2 =
     \<lparr>req_method = POST, req_authorization = good_auth,
      req_body = \<lparr>b_attended = JBool True, b_lastAttendance = JStr ''08/01/2025 in Cairo'',
                  b_lastAttendanceCenter = JStr ''Cairo'', b_attendanceWeek = Some 2\<rparr>\<rparr>"

definition two_db :: db where
  "two_db = snd (attend_handler sample_verify 2 attend2
                   (snd (students_handler sample_verify create_mona twice_db)))"

definition stale_db :: db where
  "stale_db = two_db\<lparr>history :=
                 [\<lparr>h_studentId = 2, h_week = 2\<rparr>, \<lparr>h_studentId = 1, h_week = 3\<rparr>,
                  \<lparr>h_studentId = 1, h_week = 5\<rparr>, \<lparr>h_studentId = 9, h_week = 1\<rparr>,
                  \<lparr>h_studentId = 2, h_week = 3\<rparr>, \<lparr>h_studentId = 1, h_week = 3\<rparr>,
                  \<lparr>h_studentId = 1, h_week = 0\<rparr>]\<rparr>"

definition get_history :: "unit request" where
  "get_history = \<lparr>req_method = GET, req_authorization = good_auth, req_body = ()\<rparr>"

text \<open>
  The current week in the words of the specification: position \<open>k\<close> holds the first
  attended week, or is 0 when no week is attended.
\<close>

definition is_current_index :: "week_record list \<Rightarrow> nat \<Rightarrow> bool" where
  "is_current_index ws k =
     (k < length ws
      \<and> (if \<exists>j < length ws. attended (ws ! j)
         then attended (ws ! k) \<and> (\<forall>j < k. \<not> attended (ws ! j))
         else k = 0))"

text \<open>
  A view shows the profile of a student and the fields of a week: every flattened field
  but \<^verbatim>\<open>lastAttendance\<close> and the label \<^verbatim>\<open>attendanceWeek\<close>.
\<close>

definition shows_week :: "student_view \<Rightarrow> student \<Rightarrow> week_record \<Rightarrow> bool" where
  "shows_week v s w =
     (v_id v = sid s \<and> v_name v = name s \<and> v_grade v = grade s \<and> v_phone v = phone s
      \<and> v_parents_phone v = parentsPhone s \<and> v_center v = center s
      \<and> v_main_center v = main_center s
      \<and> v_school v = or_else (school s) JNull \<and> v_age v = or_else (age s) JNull
      \<and> v_attended_the_session v = attended w
      \<and> v_lastAttendanceCenter v = lastAttendanceCenter w
      \<and> v_hwDone v = hwDone w \<and> v_paidSession v = paidSession w
      \<and> v_quizDegree v = quizDegree w \<and> v_message_state v = message_state w)"

text \<open>
  The label of a week number from 0 to 99: \<^verbatim>\<open>week\<close>, a space and the two decimal digits
  of the number.
\<close>

definition two_digit_label :: "int \<Rightarrow> string" where
  "two_digit_label n =
     ''week '' @ [''0123456789'' ! (nat n div 10), ''0123456789'' ! (nat n mod 10)]"

text \<open>
  The date that the read of one student shows for a stored text \<open>a\<close>. A date stands at
  position \<open>p\<close> of the text when two digits, a dash or a slash, two digits, a dash or a
  slash and four digits follow from there; it is then shown with slashes. The read shows
  the first date of the text, or the whole text when no date stands in it.
\<close>

definition digit_chars :: "char set" where
  "digit_chars = set ''0123456789''"

definition sep_chars :: "char set" where
  "sep_chars = {CHR ''-'', CHR ''/''}"

definition date_at_pos :: "string \<Rightarrow> nat \<Rightarrow> string \<Rightarrow> bool" where
  "date_at_pos a p t =
     (\<exists>d1 d2 s1 m1 m2 s2 y1 y2 y3 y4 rest.
        drop p a = d1 # d2 # s1 # m1 # m2 # s2 # y1 # y2 # y3 # y4 # rest
        \<and> set [d1, d2, m1, m2, y1, y2, y3, y4] \<subseteq> digit_chars
        \<and> s1 \<in> sep_chars \<and> s2 \<in> sep_chars
        \<and> t = [d1, d2] @ ''/'' @ [m1, m2] @ ''/'' @ [y1, y2, y3, y4])"

definition date_shown :: "string \<Rightarrow> string \<Rightarrow> bool" where
  "date_shown a t =
     ((\<exists>p. date_at_pos a p t \<and> (\<forall>q < p. \<forall>u. \<not> date_at_pos a q u))
      \<or> ((\<forall>p u. \<not> date_at_pos a p u) \<and> t = a))"

text \<open>
  The text of a center inside the shown \<^verbatim>\<open>lastAttendance\<close>: a text as it is,
  \<^verbatim>\<open>true\<close> as the word, a number as its decimal digits.
\<close>

definition center_text :: "jsval \<Rightarrow> string \<Rightarrow> bool" where
  "center_text c t =
     (c = JStr t \<or> (c = JBool True \<and> t = ''true'') \<or> (\<exists>n. c = JNum n \<and> t = js_string_of_int n))"

text \<open>An attend request whose date is written with dashes, and reads of one student.\<close>

definition attend_dash :: "attend_body request" where
  "attend_dash =
     \<lparr>req_method = POST, req_authorization = good_auth,
      req_body = \<lparr>b_attended = JBool True, b_lastAttendance = JStr ''05-03-2025'',
                  b_lastAttendanceCenter = JStr ''Giza'', b_attendanceWeek = Some 3\<rparr>\<rparr>"

definition dash_db :: db where
  "dash_db = snd (attend_handler sample_verify 1 attend_dash ali_db)"

definition get_student :: "profile_body request" where
  "get_student = \<lparr>req_method = GET, req_authorization = good_auth, req_body = no_fields\<rparr>"

definition dash_weeks :: "week_record list" where
  "dash_weeks = zero_weeks[2 := mark_attended (JStr ''05-03-2025'') (JStr ''Giza'') (zero_week 3)]"

definition dash_student :: student where
  "dash_student = (new_student 1 ali)\<lparr>weeks := Some dash_weeks\<rparr>"

text \<open>An attend request whose \<^verbatim>\<open>lastAttendance\<close> is a number, and the store after it.\<close>

definition attend_number :: "attend_body request" where
  "attend_number =
     \<lparr>req_method = POST, req_authorization = good_auth,
      req_body = \<lparr>b_attended = JBool True, b_lastAttendance = JNum 5,
                  b_lastAttendanceCenter = JStr ''Giza'', b_attendanceWeek = Some 3\<rparr>\<rparr>"

definition number_db :: db where
  "number_db = snd (attend_handler sample_verify 1 attend_number ali_db)"

definition number_weeks :: "week_record list" where
  "number_weeks = zero_weeks[2 := mark_attended (JNum 5) (JStr ''Giza'') (zero_week 3)]"

definition number_student :: student where
  "number_student = (new_student 1 ali)\<lparr>weeks := Some number_weeks\<rparr>"

text \<open>
  Operations on the empty store: student 1 attends week 3, gets homework, payment and a
  quiz grade for it, attends week 2 and gets homework for it, then week 3 is taken back and
  its homework written as not done.
\<close>

definition marked_ops :: "operation list" where
  "marked_ops =
     [Create create_ali, Attend 1 attend3, UpdateHomework 1 True 3, UpdatePayment 1 True 3,
      UpdateQuizGrade 1 (JStr ''8 / 10'') 3]"

definition guarded_ops :: "operation list" where
  "guarded_ops =
     marked_ops @ [Attend 1 attend2, UpdateHomework 1 True 2, Attend 1 unattend3,
                   UpdateHomework 1 False 3]"

text \<open>A store whose only student has the id \<open>2 ^ 53\<close>.\<close>

definition big_id_db :: db where
  "big_id_db =
     \<lparr>students = [new_student 9007199254740992 ali], history = [], assistants = []\<rparr>"

section \<open>Properties of the collection operations\<close>

lemma find_Some_sat: "find p xs = Some x \<Longrightarrow> p x"
  by (induction xs) (auto split: if_splits)

lemma find_update_first:
  "find p xs = Some x \<Longrightarrow> p (f x) \<Longrightarrow> find p (update_first p f xs) = Some (f x)"
  by (induction xs) (auto split: if_splits)

lemma updateOne_found: "find p xs = Some x \<Longrightarrow> updateOne p f xs = (1, update_first p f xs)"
  by (simp add: updateOne_def)

lemma sid_set_week [simp]: "sid (set_week n f s) = sid s"
  by (simp add: set_week_def split: option.splits)

lemma weeks_set_week: "weeks s = Some ws \<Longrightarrow> weeks (set_week n f s) = Some (ws[n := f (ws ! n)])"
  by (simp add: set_week_def)

section \<open>Toggle attendance\<close>

lemma attend_true_result:
  assumes "attend_accepted verify i req d" and "truthy (b_attended (req_body req))"
  shows "attend_handler verify i req d =
           ((200, Success),
            d\<lparr>students := update_first (\<lambda>s. sid s = i)
                 (set_week (nat (week_number (b_attendanceWeek (req_body req)) - 1))
                    (mark_attended (b_lastAttendance (req_body req))
                       (b_lastAttendanceCenter (req_body req)))) (students d),
              history := history d @
                 [\<lparr>h_studentId = i, h_week = week_number (b_attendanceWeek (req_body req))\<rparr>]\<rparr>)"
  using assms
  by (auto simp: attend_accepted_def attend_handler_def week_out_of_bounds_def Let_def
      updateOne_found insertOne_def dest: find_Some_sat split: sum.splits option.splits)

lemma attend_accepted_preserved:
  assumes "attend_accepted verify i req d"
  shows "attend_accepted verify i req
           (d\<lparr>students := update_first (\<lambda>s. sid s = i) (set_week n f) (students d), history := h\<rparr>)"
proof -
  from assms obtain s ws where s: "find (\<lambda>s. sid s = i) (students d) = Some s"
    and ws: "weeks s = Some ws"
    by (auto simp: attend_accepted_def split: option.splits)
  from s have "sid s = i" by (rule find_Some_sat)
  then have "sid (set_week n f s) = i" by simp
  with s have f: "find (\<lambda>s. sid s = i) (update_first (\<lambda>s. sid s = i) (set_week n f) (students d))
      = Some (set_week n f s)"
    by (rule find_update_first)
  show ?thesis
    using assms s ws f by (simp add: attend_accepted_def weeks_set_week)
qed

text \<open>
  C10. Every accepted attend call with a truthy \<^verbatim>\<open>attended\<close> answers 200 and appends the
  history record of the student and the week to the history collection, whatever the
  state of that week was; the same call made twice leaves two such records.
\<close>

theorem attend_true_always_inserts:
  assumes "attend_accepted verify i req d" and "truthy (b_attended (req_body req))"
  shows "fst (attend_handler verify i req d) = (200, Success)
       \<and> history (snd (attend_handler verify i req d))
           = history d @ [\<lparr>h_studentId = i, h_week = week_number (b_attendanceWeek (req_body req))\<rparr>]
       \<and> history (snd (attend_handler verify i req (snd (attend_handler verify i req d))))
           = history d @ [\<lparr>h_studentId = i, h_week = week_number (b_attendanceWeek (req_body req))\<rparr>,
                          \<lparr>h_studentId = i, h_week = week_number (b_attendanceWeek (req_body req))\<rparr>]"
proof -
  note first = attend_true_result [OF assms]
  have "attend_accepted verify i req (snd (attend_handler verify i req d))"
    unfolding first snd_conv by (rule attend_accepted_preserved [OF assms(1)])
  from attend_true_result [OF this assms(2)] first show ?thesis by simp
qed

theorem attend_true_always_inserts_witness:
  "attend_accepted sample_verify 1 attend3 ali_db
   \<and> truthy (b_attended (req_body attend3))
   \<and> history (snd (attend_handler sample_verify 1 attend3
                     (snd (attend_handler sample_verify 1 attend3 ali_db))))
       = [\<lparr>h_studentId = 1, h_week = 3\<rparr>, \<lparr>h_studentId = 1, h_week = 3\<rparr>]"
proof -
  have a: "attend_accepted sample_verify 1 attend3 ali_db" by code_simp
  have t: "truthy (b_attended (req_body attend3))" by code_simp
  have h: "history ali_db = []" by code_simp
  have w: "week_number (b_attendanceWeek (req_body attend3)) = 3" by code_simp
  from attend_true_always_inserts [OF a t] a t h w show ?thesis by simp
qed

lemma attend_false_result:
  assumes "attend_accepted verify i req d" and "\<not> truthy (b_attended (req_body req))"
  shows "attend_handler verify i req d =
           ((200, Success),
            d\<lparr>students := update_first (\<lambda>s. sid s = i)
                 (set_week (nat (week_number (b_attendanceWeek (req_body req)) - 1))
                    mark_unattended) (students d),
              history := filter
                 (\<lambda>h. \<not> (h_studentId h = i
                          \<and> h_week h = week_number (b_attendanceWeek (req_body req))))
                 (history d)\<rparr>)"
  using assms
  by (auto simp: attend_accepted_def attend_handler_def week_out_of_bounds_def Let_def
      updateOne_found deleteMany_def dest: find_Some_sat split: sum.splits option.splits)

lemma length_filter_split:
  "length (filter (\<lambda>x. \<not> P x) xs) + length (filter P xs) = length xs"
  by (induction xs) auto

text \<open>
  C3, as the code has it. An accepted attend call with a truthy \<^verbatim>\<open>attended\<close> appends
  exactly one history record of the student and the week. With a falsy \<^verbatim>\<open>attended\<close>
  it removes every history record of the student and the week and no other record: the
  collection shrinks by the number of such records, which is one when one is present.
\<close>

theorem toggle_history_effect:
  assumes "attend_accepted verify i req d"
  shows "(truthy (b_attended (req_body req)) \<longrightarrow>
            history (snd (attend_handler verify i req d))
              = history d @ [\<lparr>h_studentId = i, h_week = week_number (b_attendanceWeek (req_body req))\<rparr>])
       \<and> (\<not> truthy (b_attended (req_body req)) \<longrightarrow>
            history (snd (attend_handler verify i req d))
              = filter (\<lambda>h. \<not> (h_studentId h = i
                                \<and> h_week h = week_number (b_attendanceWeek (req_body req))))
                  (history d)
            \<and> length (history (snd (attend_handler verify i req d)))
                + length (filter (\<lambda>h. h_studentId h = i
                                   \<and> h_week h = week_number (b_attendanceWeek (req_body req)))
                            (history d))
              = length (history d))"
proof (cases "truthy (b_attended (req_body req))")
  case True
  from attend_true_result [OF assms True] True show ?thesis by simp
next
  case False
  have eq: "history (snd (attend_handler verify i req d))
      = filter (\<lambda>h. \<not> (h_studentId h = i
                        \<and> h_week h = week_number (b_attendanceWeek (req_body req))))
          (history d)"
    using attend_false_result [OF assms False] by simp
  show ?thesis
    unfolding eq using False
      length_filter_split [of "\<lambda>h. h_studentId h = i
          \<and> h_week h = week_number (b_attendanceWeek (req_body req))" "history d"]
    by blast
qed

theorem toggle_history_effect_witness:
  "attend_accepted sample_verify 1 unattend3 twice_db
   \<and> \<not> truthy (b_attended (req_body unattend3))
   \<and> history (snd (attend_handler sample_verify 1 unattend3 twice_db))
       = filter (\<lambda>h. \<not> (h_studentId h = 1 \<and> h_week h = 3)) (history twice_db)"
proof -
  have a: "attend_accepted sample_verify 1 unattend3 twice_db" by code_simp
  have t: "\<not> truthy (b_attended (req_body unattend3))" by code_simp
  have w: "week_number (b_attendanceWeek (req_body unattend3)) = 3" by code_simp
  from toggle_history_effect [OF a] a t w show ?thesis by simp
qed

text \<open>
  C3 as stated fails: week 3 of student 1 is attended and has two history records; the
  call that turns attendance off removes both, not exactly one.
\<close>

theorem unattend_removes_two_counterexample:
  "(case find (\<lambda>s. sid s = 1) (students twice_db) of
      Some s \<Rightarrow> (case weeks s of Some ws \<Rightarrow> attended (ws ! 2) | None \<Rightarrow> False)
    | None \<Rightarrow> False)
   \<and> history twice_db = [\<lparr>h_studentId = 1, h_week = 3\<rparr>, \<lparr>h_studentId = 1, h_week = 3\<rparr>]
   \<and> fst (attend_handler sample_verify 1 unattend3 twice_db) = (200, Success)
   \<and> history (snd (attend_handler sample_verify 1 unattend3 twice_db)) = []"
  by code_simp

text \<open>
  The bounds check of the attend handler: a week index at or beyond the length of the
  student's weeks, or a student without weeks, is answered with 400 and no change.
\<close>

lemma attend_week_too_large:
  assumes "req_method req = POST"
    and "authMiddleware verify (req_authorization req) = Inr user"
    and "find (\<lambda>s. sid s = i) (students d) = Some s"
    and "week_out_of_bounds s (week_number (b_attendanceWeek (req_body req)) - 1)"
  shows "attend_handler verify i req d = ((400, ErrorBody ''Invalid week number''), d)"
  using assms by (simp add: attend_handler_def Let_def)

text \<open>
  C5 at week number \<open>- 1\<close>: the resolved index is \<open>- 2\<close>, below the student's twenty weeks,
  and the answer is 500, not 400.
\<close>

theorem negative_week_not_rejected:
  "week_number (b_attendanceWeek (req_body attend_minus1)) - 1 = - 2
   \<and> attend_handler sample_verify 1 attend_minus1 ali_db
       = ((500, ErrorBody ''Internal server error''), ali_db)"
  by code_simp

section \<open>The invariant of unattended weeks\<close>

lemma list_all_update_first:
  "list_all P xs \<Longrightarrow> (\<And>x. P x \<Longrightarrow> P (f x)) \<Longrightarrow> list_all P (update_first p f xs)"
  by (induction xs) auto

lemma list_all_delete_first: "list_all P xs \<Longrightarrow> list_all P (delete_first p xs)"
  by (induction xs) auto

lemma list_all_list_update: "list_all P xs \<Longrightarrow> P v \<Longrightarrow> list_all P (xs[n := v])"
  by (induction xs arbitrary: n) (auto split: nat.splits)

lemma week_ok_zero_week: "week_ok (zero_week i)"
  by (simp add: week_ok_def zero_week_def)

lemma list_all_zero_weeks: "list_all week_ok zero_weeks"
  by (simp add: zero_weeks_def list_all_iff week_ok_zero_week)

lemma week_ok_mark_attended: "week_ok (mark_attended la lac w)"
  by (simp add: week_ok_def mark_attended_def)

lemma week_ok_mark_unattended: "week_ok (mark_unattended w)"
  by (simp add: week_ok_def mark_unattended_def)

lemma student_ok_set_week:
  "student_ok s \<Longrightarrow> (\<And>w. week_ok (f w)) \<Longrightarrow> student_ok (set_week n f s)"
  by (auto simp: student_ok_def set_week_def list_all_list_update split: option.splits)

lemma weeks_set_field [simp]: "weeks (set_field kv s) = weeks s"
  by (induction kv s rule: set_field.induct) simp_all

lemma weeks_fold_set_field [simp]: "weeks (fold set_field upd s) = weeks s"
  by (induction upd arbitrary: s) simp_all

lemma student_ok_fold_set_field: "student_ok s \<Longrightarrow> student_ok (fold set_field upd s)"
  by (simp add: student_ok_def)

lemma student_ok_reset: "student_ok (s\<lparr>weeks := Some zero_weeks\<rparr>)"
  by (simp add: student_ok_def list_all_zero_weeks)

lemma student_ok_new_student: "student_ok (new_student n b)"
  by (simp add: student_ok_def new_student_def list_all_zero_weeks)

lemma store_ok_attend:
  "store_ok d \<Longrightarrow> store_ok (snd (attend_handler verify i req d))"
  by (auto simp: store_ok_def attend_handler_def Let_def updateOne_def
      intro!: list_all_update_first student_ok_set_week week_ok_mark_attended
        week_ok_mark_unattended
      split: sum.splits option.splits)

lemma store_ok_reset:
  "store_ok d \<Longrightarrow> store_ok (snd (reset_handler verify i req d))"
  by (auto simp: store_ok_def reset_handler_def Let_def updateOne_def student_ok_reset
      intro!: list_all_update_first split: sum.splits option.splits)

lemma store_ok_students:
  "store_ok d \<Longrightarrow> store_ok (snd (students_handler verify req d))"
  by (auto simp: store_ok_def students_handler_def Let_def insertOne_def student_ok_new_student
      split: sum.splits option.splits)

lemma store_ok_student:
  "store_ok d \<Longrightarrow> store_ok (snd (student_handler verify i req d))"
  by (auto simp: store_ok_def student_handler_def Let_def updateOne_def deleteOne_def
      intro!: list_all_update_first list_all_delete_first student_ok_fold_set_field
      split: sum.splits option.splits)

lemma list_all_update_found:
  assumes "list_all P xs" and "\<And>x. find p xs = Some x \<Longrightarrow> P x \<Longrightarrow> P (f x)"
  shows "list_all P (update_first p f xs)"
  using assms by (induction xs) auto

lemma week_ok_set:
  assumes "week_ok w"
  shows "attended w \<or> \<not> hw \<Longrightarrow> week_ok (w\<lparr>hwDone := hw\<rparr>)"
    and "attended w \<or> \<not> paid \<Longrightarrow> week_ok (w\<lparr>paidSession := paid\<rparr>)"
    and "attended w \<or> q = JNull \<Longrightarrow> week_ok (w\<lparr>quizDegree := q\<rparr>)"
  using assms by (auto simp: week_ok_def)

lemma store_ok_update_week_field:
  assumes "store_ok d"
    and "\<And>w. week_ok w \<Longrightarrow> attended w \<or> unset \<Longrightarrow> week_ok (f w)"
    and "unset \<or> \<not> unattended_week d i n"
  shows "store_ok (update_week_field i n f d)"
proof -
  have "student_ok
          (case weeks s of
             None \<Rightarrow> s
           | Some ws \<Rightarrow>
               if 1 \<le> n \<and> n \<le> int (length ws) then set_week (nat (n - 1)) f s else s)"
    if s: "find (\<lambda>s. sid s = i) (students d) = Some s" and ok: "student_ok s" for s
  proof (cases "weeks s")
    case None
    with ok show ?thesis by simp
  next
    case (Some ws)
    show ?thesis
    proof (cases "1 \<le> n \<and> n \<le> int (length ws)")
      case False
      then have "(if 1 \<le> n \<and> n \<le> int (length ws) then set_week (nat (n - 1)) f s else s) = s"
        by (rule if_not_P)
      with Some ok show ?thesis by simp
    next
      case True
      then have k: "nat (n - 1) < length ws" by auto
      from ok Some have all: "list_all week_ok ws" by (simp add: student_ok_def)
      then have w: "week_ok (ws ! nat (n - 1))" using k by (simp add: list_all_length)
      from assms(3) s Some True have "unset \<or> attended (ws ! nat (n - 1))"
        by (auto simp: unattended_week_def)
      with assms(2) [OF w] have "week_ok (f (ws ! nat (n - 1)))" by auto
      with all have "list_all week_ok (ws[nat (n - 1) := f (ws ! nat (n - 1))])"
        by (rule list_all_list_update)
      with Some True show ?thesis by (simp add: student_ok_def set_week_def)
    qed
  qed
  with assms(1) show ?thesis
    by (auto simp: store_ok_def update_week_field_def intro!: list_all_update_found)
qed

lemma store_ok_exec_op:
  assumes "store_ok d" and "\<not> sets_unattended d op"
  shows "store_ok (exec_op verify op d)"
proof (cases op)
  case (UpdateHomework i hw w)
  with assms show ?thesis
    by (auto simp: update_homework_def
        intro!: store_ok_update_week_field [where unset = "\<not> hw"] week_ok_set)
next
  case (UpdatePayment i paid w)
  with assms show ?thesis
    by (auto simp: update_payment_def
        intro!: store_ok_update_week_field [where unset = "\<not> paid"] week_ok_set)
next
  case (UpdateQuizGrade i q w)
  with assms show ?thesis
    by (auto simp: update_quiz_grade_def
        intro!: store_ok_update_week_field [where unset = "q = JNull"] week_ok_set)
qed (use assms in \<open>simp_all add: store_ok_attend store_ok_reset store_ok_students store_ok_student\<close>)

lemma store_ok_run:
  "store_ok d \<Longrightarrow> guarded verify d ops \<Longrightarrow> store_ok (run verify ops d)"
  unfolding run_def
  by (induction ops arbitrary: d) (simp_all add: store_ok_exec_op)

lemma store_ok_explicit:
  "store_ok d \<longleftrightarrow>
     (\<forall>s \<in> set (students d). \<forall>ws. weeks s = Some ws \<longrightarrow>
        (\<forall>w < length ws. \<not> attended (ws ! w) \<longrightarrow>
           \<not> hwDone (ws ! w) \<and> \<not> paidSession (ws ! w) \<and> quizDegree (ws ! w) = JNull))"
  by (auto simp: store_ok_def student_ok_def week_ok_def list_all_iff all_set_conv_all_nth
      split: option.splits)

text \<open>
  C1, as the modelled service has it. Take a store where every week that is not attended
  has \<^verbatim>\<open>hwDone = false\<close>, \<^verbatim>\<open>paidSession = false\<close> and \<^verbatim>\<open>quizDegree = null\<close>, and any
  sequence of service operations (create, reset, toggle attendance, edit and delete of a
  student, updates of homework, payment and quiz grade) in which no update writes a set
  value to a week that is not attended when the update runs. The store it leads to is such
  a store again.
\<close>

theorem unset_when_not_attended:
  assumes "store_ok d" and "guarded verify d ops"
  shows "\<forall>s \<in> set (students (run verify ops d)). \<forall>ws. weeks s = Some ws \<longrightarrow>
           (\<forall>w < length ws. \<not> attended (ws ! w) \<longrightarrow>
              \<not> hwDone (ws ! w) \<and> \<not> paidSession (ws ! w) \<and> quizDegree (ws ! w) = JNull)"
  using store_ok_run [OF assms] by (simp only: store_ok_explicit)

theorem unset_when_not_attended_witness:
  "store_ok empty_db \<and> guarded sample_verify empty_db guarded_ops
   \<and> (case students (run sample_verify marked_ops empty_db) of
        [s] \<Rightarrow> (case weeks s of
                  Some ws \<Rightarrow> attended (ws ! 2) \<and> hwDone (ws ! 2) \<and> paidSession (ws ! 2)
                            \<and> quizDegree (ws ! 2) = JStr ''8 / 10''
                | None \<Rightarrow> False)
      | _ \<Rightarrow> False)
   \<and> (case students (run sample_verify guarded_ops empty_db) of
        [s] \<Rightarrow> (case weeks s of
                  Some ws \<Rightarrow> attended (ws ! 1) \<and> hwDone (ws ! 1)
                            \<and> \<not> attended (ws ! 2) \<and> \<not> hwDone (ws ! 2)
                            \<and> \<not> paidSession (ws ! 2) \<and> quizDegree (ws ! 2) = JNull
                | None \<Rightarrow> False)
      | _ \<Rightarrow> False)
   \<and> store_ok (run sample_verify guarded_ops empty_db)"
proof -
  have a: "store_ok empty_db" by code_simp
  have b: "guarded sample_verify empty_db guarded_ops" by code_simp
  have c: "case students (run sample_verify marked_ops empty_db) of
        [s] \<Rightarrow> (case weeks s of
                  Some ws \<Rightarrow> attended (ws ! 2) \<and> hwDone (ws ! 2) \<and> paidSession (ws ! 2)
                            \<and> quizDegree (ws ! 2) = JStr ''8 / 10''
                | None \<Rightarrow> False)
      | _ \<Rightarrow> False"
    by code_simp
  have e: "case students (run sample_verify guarded_ops empty_db) of
        [s] \<Rightarrow> (case weeks s of
                  Some ws \<Rightarrow> attended (ws ! 1) \<and> hwDone (ws ! 1)
                            \<and> \<not> attended (ws ! 2) \<and> \<not> hwDone (ws ! 2)
                            \<and> \<not> paidSession (ws ! 2) \<and> quizDegree (ws ! 2) = JNull
                | None \<Rightarrow> False)
      | _ \<Rightarrow> False"
    by code_simp
  from unset_when_not_attended [OF a b]
  have "store_ok (run sample_verify guarded_ops empty_db)"
    by (simp only: store_ok_explicit)
  with a b c e show ?thesis by (intro conjI)
qed

text \<open>
  An update that writes a set value to a week that is not attended breaks the property of
  a store that had it: the condition of the theorem leaves out nothing else.
\<close>

lemma find_update_first_mem:
  "find p xs = Some x \<Longrightarrow> f x \<in> set (update_first p f xs)"
  by (induction xs) (auto split: if_splits)

lemma sets_unattended_breaks:
  assumes "sets_unattended d op"
  shows "\<not> store_ok (exec_op verify op d)"
proof -
  have broken: "\<not> store_ok (update_week_field i n f d)"
    if u: "unattended_week d i n" and f: "\<And>w. \<not> attended w \<Longrightarrow> \<not> week_ok (f w)" for i n f
  proof -
    from u obtain s ws where s: "find (\<lambda>s. sid s = i) (students d) = Some s"
      and ws: "weeks s = Some ws" and n: "1 \<le> n" "n \<le> int (length ws)"
      and na: "\<not> attended (ws ! nat (n - 1))"
      by (auto simp: unattended_week_def split: option.splits)
    let ?g = "\<lambda>s. case weeks s of
                    None \<Rightarrow> s
                  | Some ws \<Rightarrow>
                      if 1 \<le> n \<and> n \<le> int (length ws) then set_week (nat (n - 1)) f s else s"
    from n have k: "nat (n - 1) < length ws" by auto
    have mem: "?g s \<in> set (update_first (\<lambda>s. sid s = i) ?g (students d))"
      using s by (rule find_update_first_mem)
    have "weeks (?g s) = Some (ws[nat (n - 1) := f (ws ! nat (n - 1))])"
      using ws n by (simp add: set_week_def)
    moreover have "\<not> list_all week_ok (ws[nat (n - 1) := f (ws ! nat (n - 1))])"
      using f [OF na] k by (auto simp: list_all_length)
    ultimately have "\<not> student_ok (?g s)" by (simp add: student_ok_def)
    with mem have "\<not> list_all student_ok (update_first (\<lambda>s. sid s = i) ?g (students d))"
      unfolding list_all_iff by blast
    then show ?thesis by (simp add: store_ok_def update_week_field_def)
  qed
  show ?thesis
  proof (cases op)
    case (UpdateHomework i hw w)
    with assms have v: "hw" and u: "unattended_week d i w" by simp_all
    have "\<not> store_ok (update_week_field i w (\<lambda>x. x\<lparr>hwDone := hw\<rparr>) d)"
      by (rule broken [OF u]) (simp add: week_ok_def v)
    then show ?thesis by (simp add: UpdateHomework update_homework_def)
  next
    case (UpdatePayment i paid w)
    with assms have v: "paid" and u: "unattended_week d i w" by simp_all
    have "\<not> store_ok (update_week_field i w (\<lambda>x. x\<lparr>paidSession := paid\<rparr>) d)"
      by (rule broken [OF u]) (simp add: week_ok_def v)
    then show ?thesis by (simp add: UpdatePayment update_payment_def)
  next
    case (UpdateQuizGrade i q w)
    with assms have v: "q \<noteq> JNull" and u: "unattended_week d i w" by simp_all
    have "\<not> store_ok (update_week_field i w (\<lambda>x. x\<lparr>quizDegree := q\<rparr>) d)"
      by (rule broken [OF u]) (simp add: week_ok_def v)
    then show ?thesis by (simp add: UpdateQuizGrade update_quiz_grade_def)
  qed (use assms in simp_all)
qed

text \<open>
  C1 as stated fails once the homework update is among the operations: after creating a
  student and setting the homework of week 1, that week is not attended and has
  \<^verbatim>\<open>hwDone = true\<close>. (The update is the one modelled from the specification.)
\<close>

theorem homework_breaks_invariant_counterexample:
  "store_ok empty_db
   \<and> (case students (run sample_verify homework_ops empty_db) of
        [s] \<Rightarrow> (case weeks s of
                  Some ws \<Rightarrow> length ws = 20 \<and> \<not> attended (ws ! 0) \<and> hwDone (ws ! 0)
                | None \<Rightarrow> False)
      | _ \<Rightarrow> False)
   \<and> \<not> store_ok (run sample_verify homework_ops empty_db)"
  by code_simp


section \<open>Creating a student\<close>

lemma last_student_Nil: "last_student [] = []"
  by (simp add: last_student_def)

lemma last_student_max:
  assumes "ss \<noteq> []"
  shows "\<exists>s. last_student ss = [s] \<and> s \<in> set ss \<and> (\<forall>t \<in> set ss. sid t \<le> sid s)"
proof -
  let ?xs = "sort_key (\<lambda>s. - sid s) ss"
  have ne: "?xs \<noteq> []" using assms by (metis length_0_conv length_sort)
  then obtain x rest where xs: "?xs = x # rest" by (cases ?xs) auto
  have srt: "sorted (map (\<lambda>s. - sid s) ?xs)" by (rule sorted_sort_key)
  have st: "set ?xs = set ss" by simp
  have "\<forall>t \<in> set ss. sid t \<le> sid x"
  proof
    fix t assume "t \<in> set ss"
    then have "t \<in> set (x # rest)" using st xs by simp
    then show "sid t \<le> sid x" using srt unfolding xs by auto
  qed
  moreover have "x \<in> set ss" using st xs by (metis list.set_intros(1))
  moreover have "last_student ss = [x]" by (simp add: last_student_def xs)
  ultimately show ?thesis by blast
qed

lemma new_id_empty: "new_id [] = 1"
  by (simp add: new_id_def last_student_Nil)

lemma js_add1_exact: "- (2 ^ 53) \<le> n \<Longrightarrow> n < 2 ^ 53 \<Longrightarrow> js_add1 n = n + 1"
  by (simp add: js_add1_def)

lemma new_id_Max:
  assumes "ss \<noteq> []"
    and "- (2 ^ 53) \<le> Max (sid ` set ss)" and "Max (sid ` set ss) < 2 ^ 53"
  shows "new_id ss = Max (sid ` set ss) + 1"
proof -
  from last_student_max [OF assms(1)] obtain s where s: "last_student ss = [s]" "s \<in> set ss"
    "\<forall>t \<in> set ss. sid t \<le> sid s" by blast
  have "Max (sid ` set ss) = sid s"
    by (rule Max_eqI) (use s in auto)
  with assms(2,3) show ?thesis by (simp add: new_id_def s(1) js_add1_exact)
qed

lemma length_zero_weeks: "length zero_weeks = 20"
  by (simp add: zero_weeks_def)

lemma nth_zero_weeks: "k < 20 \<Longrightarrow> zero_weeks ! k = zero_week (int k + 1)"
  by (simp add: zero_weeks_def add.commute)

text \<open>
  C2, as the code has it. A POST to the students collection with a token that verifies and
  no required field missing, on a collection that is empty or whose greatest id lies from
  \<open>- (2 ^ 53)\<close> up to \<open>2 ^ 53 - 1\<close>, answers 200 with the new id, which is one more than the
  greatest id (1 when the collection is empty), and appends one student with that id and
  exactly twenty weeks, numbered 1 to 20 and all zeroed.
\<close>

theorem create_assigns_next_id:
  assumes "req_method req = POST"
    and "authMiddleware verify (req_authorization req) = Inr user"
    and "\<not> missing_field (req_body req)"
    and "students d = []
         \<or> (- (2 ^ 53) \<le> Max (sid ` set (students d)) \<and> Max (sid ` set (students d)) < 2 ^ 53)"
  shows "\<exists>n st ws.
           n = (if students d = [] then 1 else Max (sid ` set (students d)) + 1)
         \<and> students_handler verify req d = ((200, NewId n), d\<lparr>students := students d @ [st]\<rparr>)
         \<and> sid st = n
         \<and> weeks st = Some ws
         \<and> length ws = 20
         \<and> (\<forall>k < 20. ws ! k =
               \<lparr>week = int k + 1, attended = False, lastAttendance = JNull,
                lastAttendanceCenter = JNull, hwDone = False, paidSession = False,
                quizDegree = JNull, message_state = False\<rparr>)"
proof -
  let ?n = "new_id (students d)"
  have n: "?n = (if students d = [] then 1 else Max (sid ` set (students d)) + 1)"
    using assms(4) by (auto simp: new_id_Max new_id_empty)
  have h: "students_handler verify req d
      = ((200, NewId ?n), d\<lparr>students := students d @ [new_student ?n (req_body req)]\<rparr>)"
    using assms(1-3) by (simp add: students_handler_def Let_def insertOne_def)
  have z: "\<forall>k < 20. zero_weeks ! k =
               \<lparr>week = int k + 1, attended = False, lastAttendance = JNull,
                lastAttendanceCenter = JNull, hwDone = False, paidSession = False,
                quizDegree = JNull, message_state = False\<rparr>"
    by (simp add: nth_zero_weeks zero_week_def)
  have "sid (new_student ?n (req_body req)) = ?n"
    and "weeks (new_student ?n (req_body req)) = Some zero_weeks"
    by (simp_all add: new_student_def)
  with n h z length_zero_weeks show ?thesis by blast
qed

theorem create_assigns_next_id_witness:
  "req_method create_ali = POST
   \<and> authMiddleware sample_verify (req_authorization create_ali) = Inr sample_claims
   \<and> \<not> missing_field (req_body create_ali)
   \<and> (students ali_db = []
      \<or> (- (2 ^ 53) \<le> Max (sid ` set (students ali_db))
         \<and> Max (sid ` set (students ali_db)) < 2 ^ 53))
   \<and> fst (students_handler sample_verify create_ali ali_db) = (200, NewId 2)"
proof -
  have a: "req_method create_ali = POST" by code_simp
  have b: "authMiddleware sample_verify (req_authorization create_ali) = Inr sample_claims"
    by code_simp
  have c: "\<not> missing_field (req_body create_ali)" by code_simp
  have d: "students ali_db \<noteq> []" by code_simp
  have e: "Max (sid ` set (students ali_db)) = 1" by code_simp
  have f: "students ali_db = []
      \<or> (- (2 ^ 53) \<le> Max (sid ` set (students ali_db))
         \<and> Max (sid ` set (students ali_db)) < 2 ^ 53)"
    unfolding e by simp
  from create_assigns_next_id [OF a b c f] a b c d e f show ?thesis by auto
qed

text \<open>
  C2 as stated fails at the end of the exact range: the only student has the id \<open>2 ^ 53\<close>,
  and the new student gets the same id \<open>2 ^ 53\<close>, not \<open>2 ^ 53 + 1\<close>.
\<close>

theorem create_repeats_id_counterexample:
  "map sid (students big_id_db) = [9007199254740992]
   \<and> \<not> missing_field (req_body create_ali)
   \<and> fst (students_handler sample_verify create_ali big_id_db) = (200, NewId 9007199254740992)
   \<and> map sid (students (snd (students_handler sample_verify create_ali big_id_db)))
       = [9007199254740992, 9007199254740992]"
  by code_simp

section \<open>Updating a student\<close>

text \<open>
  C6, as the code has it. A PUT for one student in which every field is undefined or
  null is answered with 400 and leaves the store as it is.
\<close>

theorem empty_update_rejected:
  assumes "req_method req = PUT"
    and "authMiddleware verify (req_authorization req) = Inr user"
    and "\<not> defined (p_name (req_body req))" and "\<not> defined (p_grade (req_body req))"
    and "\<not> defined (p_phone (req_body req))" and "\<not> defined (p_parents_phone (req_body req))"
    and "\<not> defined (p_main_center (req_body req))" and "\<not> defined (p_age (req_body req))"
    and "\<not> defined (p_school (req_body req))"
  shows "student_handler verify i req d = ((400, ErrorBody ''No valid fields to update''), d)"
  using assms by (simp add: student_handler_def build_update_def)

theorem empty_update_rejected_witness:
  "req_method put_nothing = PUT
   \<and> authMiddleware sample_verify (req_authorization put_nothing) = Inr sample_claims
   \<and> \<not> defined (p_name (req_body put_nothing)) \<and> \<not> defined (p_grade (req_body put_nothing))
   \<and> \<not> defined (p_phone (req_body put_nothing))
   \<and> \<not> defined (p_parents_phone (req_body put_nothing))
   \<and> \<not> defined (p_main_center (req_body put_nothing)) \<and> \<not> defined (p_age (req_body put_nothing))
   \<and> \<not> defined (p_school (req_body put_nothing))
   \<and> student_handler sample_verify 1 put_nothing ali_db
       = ((400, ErrorBody ''No valid fields to update''), ali_db)"
proof -
  have a: "req_method put_nothing = PUT" by code_simp
  have b: "authMiddleware sample_verify (req_authorization put_nothing) = Inr sample_claims"
    by code_simp
  have c: "\<not> defined (p_name (req_body put_nothing))" "\<not> defined (p_grade (req_body put_nothing))"
    "\<not> defined (p_phone (req_body put_nothing))"
    "\<not> defined (p_parents_phone (req_body put_nothing))"
    "\<not> defined (p_main_center (req_body put_nothing))" "\<not> defined (p_age (req_body put_nothing))"
    "\<not> defined (p_school (req_body put_nothing))"
    by (simp_all add: put_nothing_def no_fields_def defined_def)
  from empty_update_rejected [OF a b c, of 1 ali_db] a b c show ?thesis by simp
qed

text \<open>
  C6 as stated fails for an empty string: a PUT whose only field is \<^verbatim>\<open>name: ""\<close> has a
  changeset of one key, is answered with 200 and overwrites the name.
\<close>

theorem empty_string_update_applied_counterexample:
  "build_update (req_body put_empty_name) = [(FName, JStr '''')]
   \<and> map name (students ali_db) = [JStr ''Ali'']
   \<and> fst (student_handler sample_verify 1 put_empty_name ali_db) = (200, Success)
   \<and> map name (students (snd (student_handler sample_verify 1 put_empty_name ali_db)))
       = [JStr '''']"
  by code_simp

section \<open>Assistants\<close>

text \<open>
  C8 on the store that holds one assistant created with the password \<open>secret\<close>: the
  read of all assistants answers with the stored documents, the stored (hashed) password
  among their fields; the read of one assistant answers without it.
\<close>

theorem stored_password_returned:
  "fst (assistants_handler sample_verify hash get_assistants
          (snd (assistants_handler sample_verify hash create_sara empty_db)))
     = (200, AssistantsBody
              [\<lparr>a_id = ''sara'', a_name = ''Sara'', a_phone = ''01000000000'',
                a_password = hash ''secret'', a_role = ''assistant''\<rparr>])
   \<and> fst (assistant_handler sample_verify hash ''sara'' get_assistants
          (snd (assistants_handler sample_verify hash create_sara empty_db)))
     = (200, AssistantBody
              \<lparr>av_id = ''sara'', av_name = ''Sara'', av_phone = ''01000000000'',
               av_role = ''assistant''\<rparr>)"
  by code_simp

section \<open>Rejected tokens\<close>

lemma student_catch_invalid_token:
  "student_catch fallback (''Invalid token - '' @ m) = (401, ErrorBody (''Invalid token - '' @ m))"
proof -
  have "js_includes (''Invalid token - '' @ m) ''Invalid token''" by simp
  then show ?thesis by (simp only: student_catch_def if_True simp_thms)
qed

lemma authMiddleware_rejects:
  assumes "starts_with ''Bearer '' a" and "verify (bearer_token a) = Inl m"
  shows "authMiddleware verify (Some a) = Inl (''Invalid token - '' @ m)"
  using assms by (simp add: authMiddleware_def)

lemma requireAdmin_rejects:
  assumes "starts_with ''Bearer '' a" and "verify (bearer_token a) = Inl m"
  shows "requireAdmin verify (Some a) = Inl m"
  using assms by (simp add: requireAdmin_def)

lemma students_handler_invalid_token:
  assumes "req_authorization req = Some a" and "starts_with ''Bearer '' a"
    and "verify (bearer_token a) = Inl m"
  shows "students_handler verify req d = ((401, ErrorBody (''Invalid token - '' @ m)), d)"
  using assms
  by (simp only: students_handler_def authMiddleware_rejects student_catch_invalid_token
      sum.case)

lemma student_handler_invalid_token:
  assumes "req_authorization req = Some a" and "starts_with ''Bearer '' a"
    and "verify (bearer_token a) = Inl m"
  shows "student_handler verify i req d = ((401, ErrorBody (''Invalid token - '' @ m)), d)"
  using assms
  by (simp only: student_handler_def authMiddleware_rejects student_catch_invalid_token
      sum.case)

lemma attend_handler_invalid_token:
  assumes "req_method req = POST"
    and "req_authorization req = Some a" and "starts_with ''Bearer '' a"
    and "verify (bearer_token a) = Inl m"
  shows "attend_handler verify i req d = ((401, ErrorBody (''Invalid token - '' @ m)), d)"
  using assms
  by (simp only: attend_handler_def authMiddleware_rejects student_catch_invalid_token
      sum.case simp_thms if_False)

lemma reset_handler_invalid_token:
  assumes "req_method req = POST"
    and "req_authorization req = Some a" and "starts_with ''Bearer '' a"
    and "verify (bearer_token a) = Inl m"
  shows "reset_handler verify i req d = ((401, ErrorBody (''Invalid token - '' @ m)), d)"
  using assms
  by (simp only: reset_handler_def authMiddleware_rejects student_catch_invalid_token
      sum.case simp_thms if_False)

lemma history_handler_invalid_token:
  assumes "req_method req = GET"
    and "req_authorization req = Some a" and "starts_with ''Bearer '' a"
    and "verify (bearer_token a) = Inl m"
  shows "history_handler verify req d = ((401, ErrorBody (''Invalid token - '' @ m)), d)"
  using assms
  by (simp only: history_handler_def authMiddleware_rejects student_catch_invalid_token
      sum.case simp_thms if_False)

lemma assistant_catch_other:
  "m \<noteq> ''Unauthorized'' \<Longrightarrow> m \<noteq> ''Forbidden: Admins only''
   \<Longrightarrow> assistant_catch m = (500, ErrorBody ''Internal server error'')"
  by (simp only: assistant_catch_def if_False)

lemma assistants_handler_invalid_token:
  assumes "req_authorization req = Some a" and "starts_with ''Bearer '' a"
    and "verify (bearer_token a) = Inl m"
    and "m \<noteq> ''Unauthorized''" and "m \<noteq> ''Forbidden: Admins only''"
  shows "assistants_handler verify hash req d = ((500, ErrorBody ''Internal server error''), d)"
  using assms
  by (simp add: assistants_handler_def requireAdmin_rejects assistant_catch_other)

lemma assistant_handler_invalid_token:
  assumes "req_authorization req = Some a" and "starts_with ''Bearer '' a"
    and "verify (bearer_token a) = Inl m"
    and "m \<noteq> ''Unauthorized''" and "m \<noteq> ''Forbidden: Admins only''"
  shows "assistant_handler verify hash ident req d
           = ((500, ErrorBody ''Internal server error''), d)"
  using assms
  by (simp add: assistant_handler_def requireAdmin_rejects assistant_catch_other)

text \<open>
  C9 on the assistant handlers: a token with a bad signature and an expired token are both
  answered with 500 by the two assistant handlers, where the handler of the students
  answers the same forged token with 401.
\<close>

theorem assistants_invalid_token_500:
  "sample_verify (bearer_token ''Bearer forged'') = Inl ''invalid signature''
   \<and> sample_verify (bearer_token ''Bearer old'') = Inl ''jwt expired''
   \<and> assistants_handler sample_verify hash get_forged d
       = ((500, ErrorBody ''Internal server error''), d)
   \<and> assistants_handler sample_verify hash get_expired d
       = ((500, ErrorBody ''Internal server error''), d)
   \<and> assistant_handler sample_verify hash ident get_forged d
       = ((500, ErrorBody ''Internal server error''), d)
   \<and> assistant_handler sample_verify hash ident get_expired d
       = ((500, ErrorBody ''Internal server error''), d)
   \<and> students_handler sample_verify get_students_forged d
       = ((401, ErrorBody ''Invalid token - invalid signature''), d)"
proof -
  have f: "sample_verify (bearer_token ''Bearer forged'') = Inl ''invalid signature''"
    by code_simp
  have e: "sample_verify (bearer_token ''Bearer old'') = Inl ''jwt expired''"
    by code_simp
  have s: "starts_with ''Bearer '' ''Bearer forged''" "starts_with ''Bearer '' ''Bearer old''"
    by simp_all
  have af: "req_authorization get_forged = Some ''Bearer forged''"
    and ae: "req_authorization get_expired = Some ''Bearer old''"
    and sf: "req_authorization get_students_forged = Some ''Bearer forged''"
    by (simp_all add: get_forged_def get_expired_def get_students_forged_def)
  have n: "''invalid signature'' \<noteq> ''Unauthorized''"
    "''invalid signature'' \<noteq> ''Forbidden: Admins only''"
    "''jwt expired'' \<noteq> ''Unauthorized''" "''jwt expired'' \<noteq> ''Forbidden: Admins only''"
    by simp_all
  show ?thesis
    using f e
      assistants_handler_invalid_token
        [where verify = sample_verify and hash = hash and d = d, OF af s(1) f n(1,2)]
      assistants_handler_invalid_token
        [where verify = sample_verify and hash = hash and d = d, OF ae s(2) e n(3,4)]
      assistant_handler_invalid_token
        [where verify = sample_verify and hash = hash and d = d and ident = ident,
          OF af s(1) f n(1,2)]
      assistant_handler_invalid_token
        [where verify = sample_verify and hash = hash and d = d and ident = ident,
          OF ae s(2) e n(3,4)]
      students_handler_invalid_token [where verify = sample_verify and d = d, OF sf s(1) f]
    by simp
qed


section \<open>History read\<close>

lemma mset_rows_push_row:
  "g_historyRecords fresh = [] \<Longrightarrow>
   mset (rows_of (map snd (push_row k fresh r m))) = add_mset r (mset (rows_of (map snd m)))"
  by (induction m) (auto simp: rows_of_def)

lemma mset_rows_process_record:
  "mset (rows_of (map snd (process_record M m record)))
     = mset (rows_of (map snd m)) + mset (List.map_filter (joined M) [record])"
  by (simp add: process_record_def joined_def mset_rows_push_row new_group_def
      split: option.splits)

lemma mset_rows_foldl:
  "mset (rows_of (map snd (foldl (process_record M) m hs)))
     = mset (rows_of (map snd m)) + mset (List.map_filter (joined M) hs)"
proof (induction hs arbitrary: m)
  case Nil
  then show ?case by simp
next
  case (Cons h hs)
  have "List.map_filter (joined M) (h # hs)
      = List.map_filter (joined M) [h] @ List.map_filter (joined M) hs"
    by (simp split: option.splits)
  then show ?case by (simp add: Cons.IH mset_rows_process_record del: map_filter_simps)
qed

lemma mset_rows_sort: "mset (rows_of (sort_key k gs)) = mset (rows_of gs)"
proof -
  have "mset (rows_of xs) = sum_mset (image_mset (\<lambda>g. mset (g_historyRecords g)) (mset xs))" for xs
    by (induction xs) (simp_all add: rows_of_def)
  then show ?thesis by simp
qed

lemma mset_rows_history_result:
  "mset (rows_of (history_result d))
     = mset (List.map_filter (joined (student_map (students d))) (history d))"
proof -
  have "rows_of [] = []" by (simp add: rows_of_def)
  then show ?thesis by (simp add: history_result_def mset_rows_sort mset_rows_foldl)
qed

lemma student_map_Some:
  "student_map ss i = Some s \<Longrightarrow> s \<in> set ss \<and> sid s = i"
proof -
  have "fold (\<lambda>s m. m(sid s \<mapsto> s)) ss m0 i = Some s \<Longrightarrow>
        (s \<in> set ss \<and> sid s = i) \<or> m0 i = Some s" for m0
    by (induction ss arbitrary: m0) (fastforce split: if_splits)+
  from this [of Map.empty] show "student_map ss i = Some s \<Longrightarrow> s \<in> set ss \<and> sid s = i"
    by (simp add: student_map_def)
qed

lemma week_data_Some:
  "week_data s i = Some w \<Longrightarrow>
   \<exists>ws. weeks s = Some ws \<and> 0 \<le> i \<and> i < int (length ws) \<and> w = ws ! nat i"
  by (auto simp: week_data_def split: option.splits if_splits)

lemma joined_Some:
  assumes "joined M record = Some r"
  shows "r_studentId r = h_studentId record \<and> r_week r = h_week record
       \<and> (\<exists>s ws. M (r_studentId r) = Some s \<and> weeks s = Some ws
             \<and> 1 \<le> r_week r \<and> r_week r \<le> int (length ws)
             \<and> attended (ws ! nat (r_week r - 1)))"
  using assms
  by (auto simp: joined_def enriched_record_def split: option.splits if_splits
      dest!: week_data_Some)


lemma push_row_group_ok:
  assumes "list_all (group_ok M) m" and "M k = Some s" and "r_studentId r = k"
  shows "list_all (group_ok M) (push_row k (new_group s) r m)"
  using assms
proof (induction m)
  case Nil
  then show ?case by (simp add: group_ok_def new_group_def)
next
  case (Cons p m)
  obtain k' g where p: "p = (k', g)" by (cases p)
  show ?case
  proof (cases "k' = k")
    case True
    with Cons.prems p show ?thesis
      by (auto simp: group_ok_def split: option.splits)
  next
    case False
    with Cons p show ?thesis by simp
  qed
qed

lemma push_row_keys:
  "map fst (push_row k fresh r m)
     = (if k \<in> set (map fst m) then map fst m else map fst m @ [k])"
  by (induction m) (force simp: image_iff)+

lemma process_record_group_ok:
  assumes "list_all (group_ok M) m"
  shows "list_all (group_ok M) (process_record M m h)"
  using assms
  by (auto simp: process_record_def enriched_record_def intro!: push_row_group_ok
      split: option.splits)

lemma process_record_distinct:
  assumes "distinct (map fst m)"
  shows "distinct (map fst (process_record M m h))"
  using assms by (auto simp: process_record_def push_row_keys split: option.splits)

lemma foldl_process_record_ok:
  "list_all (group_ok M) m \<Longrightarrow> distinct (map fst m) \<Longrightarrow>
   list_all (group_ok M) (foldl (process_record M) m hs)
   \<and> distinct (map fst (foldl (process_record M) m hs))"
  by (induction hs arbitrary: m)
     (simp_all add: process_record_group_ok process_record_distinct)

lemma group_ok_student_map:
  assumes "group_ok (student_map ss) (k, g)"
  shows "g_id g = k \<and> g_historyRecords g \<noteq> []
       \<and> (\<forall>r \<in> set (g_historyRecords g). r_studentId r = k)
       \<and> (\<exists>s. student_map ss k = Some s \<and> s \<in> set ss \<and> sid s = k
              \<and> g_name g = name s \<and> g_grade g = grade s \<and> g_school g = school s
              \<and> g_phone g = phone s \<and> g_parentsPhone g = parentsPhone s)"
proof -
  from assms obtain s where s: "student_map ss k = Some s"
    and hd: "g\<lparr>g_historyRecords := []\<rparr> = new_group s"
    and ne: "g_historyRecords g \<noteq> []"
    and rows: "list_all (\<lambda>r. r_studentId r = k) (g_historyRecords g)"
    by (auto simp: group_ok_def split: option.splits)
  from student_map_Some [OF s] have m: "s \<in> set ss" "sid s = k" by simp_all
  from hd have "g_id (g\<lparr>g_historyRecords := []\<rparr>) = g_id (new_group s)"
    and "g_name (g\<lparr>g_historyRecords := []\<rparr>) = g_name (new_group s)"
    and "g_grade (g\<lparr>g_historyRecords := []\<rparr>) = g_grade (new_group s)"
    and "g_school (g\<lparr>g_historyRecords := []\<rparr>) = g_school (new_group s)"
    and "g_phone (g\<lparr>g_historyRecords := []\<rparr>) = g_phone (new_group s)"
    and "g_parentsPhone (g\<lparr>g_historyRecords := []\<rparr>) = g_parentsPhone (new_group s)"
    by simp_all
  then have "g_id g = sid s" "g_name g = name s" "g_grade g = grade s" "g_school g = school s"
    "g_phone g = phone s" "g_parentsPhone g = parentsPhone s"
    by (simp_all add: new_group_def)
  with s m ne rows show ?thesis by (auto simp: list_all_iff)
qed

lemma history_groups:
  fixes d :: db
  defines "m \<equiv> foldl (process_record (student_map (students d))) [] (history d)"
  shows "list_all (group_ok (student_map (students d))) m"
    and "distinct (map fst m)"
    and "history_result d = sort_key g_id (map snd m)"
    and "map g_id (map snd m) = map fst m"
proof -
  from foldl_process_record_ok [of "student_map (students d)" "[]" "history d"]
  show ok: "list_all (group_ok (student_map (students d))) m" and "distinct (map fst m)"
    by (simp_all add: m_def)
  show "history_result d = sort_key g_id (map snd m)"
    by (simp add: history_result_def m_def)
  have "g_id (snd p) = fst p" if "p \<in> set m" for p
  proof -
    from ok that have "group_ok (student_map (students d)) (fst p, snd p)"
      by (simp add: list_all_iff)
    from group_ok_student_map [OF this] show ?thesis by simp
  qed
  then show "map g_id (map snd m) = map fst m" by simp
qed

lemma distinct_map_sort_key: "distinct (map f (sort_key k xs)) = distinct (map f xs)"
proof -
  have "mset (map f (sort_key k xs)) = mset (map f xs)" by simp
  then show ?thesis by (rule mset_eq_imp_distinct_iff)
qed

text \<open>
  C4. The history listing has one group for each student with rows, in ascending order of
  the student's id; every group carries the id and the profile of a student of the store and
  has at least one row. Every row of a group is a row of that student, for a week inside
  the student's weeks that is attended now. The rows of the listing are, counted with
  multiplicity, the enriched rows of exactly those history records that join an attended
  week; every other record (unknown student, missing week, week not attended) is left out
  of the answer, which is still 200.
\<close>

theorem history_rows_attended:
  "(\<forall>g \<in> set (history_result d).
       (\<exists>s. student_map (students d) (g_id g) = Some s \<and> s \<in> set (students d)
               \<and> sid s = g_id g \<and> g_name g = name s \<and> g_grade g = grade s
               \<and> g_school g = school s \<and> g_phone g = phone s
               \<and> g_parentsPhone g = parentsPhone s)
       \<and> g_historyRecords g \<noteq> []
       \<and> (\<forall>r \<in> set (g_historyRecords g).
             r_studentId r = g_id g
             \<and> (\<exists>s ws. s \<in> set (students d) \<and> sid s = r_studentId r
                     \<and> student_map (students d) (r_studentId r) = Some s
                     \<and> weeks s = Some ws \<and> 1 \<le> r_week r \<and> r_week r \<le> int (length ws)
                     \<and> attended (ws ! nat (r_week r - 1)))))
   \<and> distinct (map g_id (history_result d))
   \<and> sorted (map g_id (history_result d))
   \<and> mset (rows_of (history_result d))
       = mset (List.map_filter (joined (student_map (students d))) (history d))
   \<and> (req_method req = GET
        \<and> (case authMiddleware verify (req_authorization req) of Inl m \<Rightarrow> False | Inr u \<Rightarrow> True)
       \<longrightarrow> history_handler verify req d = ((200, HistoryBody (history_result d)), d))"
proof (intro conjI ballI impI)
  fix g
  assume g: "g \<in> set (history_result d)"
  then obtain p where p: "p \<in> set (foldl (process_record (student_map (students d))) [] (history d))"
    and gp: "g = snd p"
    by (auto simp: history_groups(3))
  from history_groups(1) [of d] p have "group_ok (student_map (students d)) (fst p, g)"
    by (simp add: list_all_iff gp)
  note ok = group_ok_student_map [OF this]
  from ok show "\<exists>s. student_map (students d) (g_id g) = Some s \<and> s \<in> set (students d)
               \<and> sid s = g_id g \<and> g_name g = name s \<and> g_grade g = grade s
               \<and> g_school g = school s \<and> g_phone g = phone s
               \<and> g_parentsPhone g = parentsPhone s"
    by auto
  from ok show "g_historyRecords g \<noteq> []" by simp
  fix r
  assume r: "r \<in> set (g_historyRecords g)"
  with ok show "r_studentId r = g_id g" by simp
  from g r have "r \<in> set (rows_of (history_result d))" by (auto simp: rows_of_def)
  then have "r \<in># mset (rows_of (history_result d))" by simp
  then have "r \<in> set (List.map_filter (joined (student_map (students d))) (history d))"
    by (simp only: mset_rows_history_result set_mset_mset)
  then obtain h where "joined (student_map (students d)) h = Some r"
    by (auto simp: map_filter_def)
  from joined_Some [OF this] obtain s ws where
    s: "student_map (students d) (r_studentId r) = Some s" and
    w: "weeks s = Some ws" "1 \<le> r_week r" "r_week r \<le> int (length ws)"
       "attended (ws ! nat (r_week r - 1))"
    by blast
  from student_map_Some [OF s] s w
  show "\<exists>s ws. s \<in> set (students d) \<and> sid s = r_studentId r
                     \<and> student_map (students d) (r_studentId r) = Some s
                     \<and> weeks s = Some ws \<and> 1 \<le> r_week r \<and> r_week r \<le> int (length ws)
                     \<and> attended (ws ! nat (r_week r - 1))"
    by blast
next
  show "distinct (map g_id (history_result d))"
    using history_groups(2,4) [of d]
    by (simp add: history_groups(3) distinct_map_sort_key del: map_map)
next
  show "sorted (map g_id (history_result d))"
    by (simp add: history_groups(3) sorted_sort_key)
next
  show "mset (rows_of (history_result d))
       = mset (List.map_filter (joined (student_map (students d))) (history d))"
    by (rule mset_rows_history_result)
next
  assume "req_method req = GET
        \<and> (case authMiddleware verify (req_authorization req) of Inl m \<Rightarrow> False | Inr u \<Rightarrow> True)"
  then show "history_handler verify req d = ((200, HistoryBody (history_result d)), d)"
    by (auto simp: history_handler_def split: sum.splits)
qed

theorem history_rows_attended_witness:
  "req_method get_history = GET
   \<and> authMiddleware sample_verify (req_authorization get_history) = Inr sample_claims
   \<and> history_handler sample_verify get_history stale_db
       = ((200, HistoryBody (history_result stale_db)), stale_db)
   \<and> length (history stale_db) = 7
   \<and> map (\<lambda>g. (g_id g, map (\<lambda>r. (r_studentId r, r_week r)) (g_historyRecords g)))
         (history_result stale_db) = [(1, [(1, 3), (1, 3)]), (2, [(2, 2)])]
   \<and> r_studentId (hd (g_historyRecords (hd (history_result stale_db))))
       = g_id (hd (history_result stale_db))
   \<and> (\<exists>s ws. s \<in> set (students stale_db) \<and> sid s = 1 \<and> weeks s = Some ws
          \<and> attended (ws ! 2))"
proof -
  let ?g = "hd (history_result stale_db)"
  let ?r = "hd (g_historyRecords ?g)"
  have m: "req_method get_history = GET" by code_simp
  have a: "authMiddleware sample_verify (req_authorization get_history) = Inr sample_claims"
    by code_simp
  have l: "length (history stale_db) = 7" by code_simp
  have v: "map (\<lambda>g. (g_id g, map (\<lambda>r. (r_studentId r, r_week r)) (g_historyRecords g)))
         (history_result stale_db) = [(1, [(1, 3), (1, 3)]), (2, [(2, 2)])]"
    by code_simp
  have g: "?g \<in> set (history_result stale_db)" using v by (intro hd_in_set) auto
  have "g_historyRecords ?g \<noteq> []" using v by (cases "history_result stale_db") auto
  then have r: "?r \<in> set (g_historyRecords ?g)" by (rule hd_in_set)
  have k: "r_studentId ?r = 1" "r_week ?r = 3" by code_simp+
  note t = history_rows_attended [of stale_db get_history sample_verify]
  from t g r have tie: "r_studentId ?r = g_id ?g" by blast
  from t g r obtain s ws where "s \<in> set (students stale_db)" "sid s = r_studentId ?r"
    "weeks s = Some ws" "attended (ws ! nat (r_week ?r - 1))"
    by blast
  then have e: "\<exists>s ws. s \<in> set (students stale_db) \<and> sid s = 1 \<and> weeks s = Some ws
          \<and> attended (ws ! 2)"
    unfolding k by auto
  from t m a have "history_handler sample_verify get_history stale_db
       = ((200, HistoryBody (history_result stale_db)), stale_db)"
    by simp
  with m a l v e tie show ?thesis by blast
qed


section \<open>The current-week view\<close>


lemma is_digit_chars: "is_digit c \<longleftrightarrow> c \<in> digit_chars"
  by (simp only: is_digit_def digit_chars_def)

lemma is_sep_chars: "is_sep c \<longleftrightarrow> c \<in> sep_chars"
  by (simp add: is_sep_def sep_chars_def)

lemma date_at_Some:
  "date_at s = Some (x, y, z) \<longleftrightarrow>
     (\<exists>d1 d2 s1 m1 m2 s2 y1 y2 y3 y4 rest.
        s = d1 # d2 # s1 # m1 # m2 # s2 # y1 # y2 # y3 # y4 # rest
        \<and> set [d1, d2, m1, m2, y1, y2, y3, y4] \<subseteq> digit_chars
        \<and> s1 \<in> sep_chars \<and> s2 \<in> sep_chars
        \<and> x = [d1, d2] \<and> y = [m1, m2] \<and> z = [y1, y2, y3, y4])"
proof
  assume a: "date_at s = Some (x, y, z)"
  then have "10 \<le> length s" by (simp add: date_at_def split: if_splits)
  then obtain d1 d2 s1 m1 m2 s2 y1 y2 y3 y4 rest where
    s: "s = d1 # d2 # s1 # m1 # m2 # s2 # y1 # y2 # y3 # y4 # rest"
    by (auto simp: Suc_le_length_iff eval_nat_numeral)
  from a show "\<exists>d1 d2 s1 m1 m2 s2 y1 y2 y3 y4 rest.
        s = d1 # d2 # s1 # m1 # m2 # s2 # y1 # y2 # y3 # y4 # rest
        \<and> set [d1, d2, m1, m2, y1, y2, y3, y4] \<subseteq> digit_chars
        \<and> s1 \<in> sep_chars \<and> s2 \<in> sep_chars
        \<and> x = [d1, d2] \<and> y = [m1, m2] \<and> z = [y1, y2, y3, y4]"
    unfolding s
    by (auto simp: date_at_def is_digit_chars is_sep_chars eval_nat_numeral split: if_splits)
next
  assume "\<exists>d1 d2 s1 m1 m2 s2 y1 y2 y3 y4 rest.
        s = d1 # d2 # s1 # m1 # m2 # s2 # y1 # y2 # y3 # y4 # rest
        \<and> set [d1, d2, m1, m2, y1, y2, y3, y4] \<subseteq> digit_chars
        \<and> s1 \<in> sep_chars \<and> s2 \<in> sep_chars
        \<and> x = [d1, d2] \<and> y = [m1, m2] \<and> z = [y1, y2, y3, y4]"
  then show "date_at s = Some (x, y, z)"
    by (auto simp: date_at_def is_digit_chars is_sep_chars eval_nat_numeral)
qed

lemma date_at_pos_iff:
  "date_at_pos a p t \<longleftrightarrow>
     (\<exists>x y z. date_at (drop p a) = Some (x, y, z) \<and> t = x @ ''/'' @ y @ ''/'' @ z)"
  unfolding date_at_pos_def date_at_Some by blast

lemma date_match_first:
  "(date_match a = None \<longleftrightarrow> (\<forall>p. date_at (drop p a) = None))
   \<and> (date_match a = Some r \<longleftrightarrow>
        (\<exists>p. date_at (drop p a) = Some r \<and> (\<forall>q < p. date_at (drop q a) = None)))"
proof (induction a)
  case Nil
  have "date_at [] = None" by (simp add: date_at_def)
  then show ?case by simp
next
  case (Cons c cs)
  show ?case
  proof (cases "date_at (c # cs)")
    case (Some r')
    have "(\<exists>p. date_at (drop p (c # cs)) = Some r
              \<and> (\<forall>q < p. date_at (drop q (c # cs)) = None)) \<longleftrightarrow> r' = r"
    proof
      assume "\<exists>p. date_at (drop p (c # cs)) = Some r
              \<and> (\<forall>q < p. date_at (drop q (c # cs)) = None)"
      then obtain p where p: "date_at (drop p (c # cs)) = Some r"
        "\<forall>q < p. date_at (drop q (c # cs)) = None" by blast
      show "r' = r"
      proof (cases p)
        case 0
        with p Some show ?thesis by simp
      next
        case (Suc n)
        with p(2) have "date_at (drop 0 (c # cs)) = None" by blast
        with Some show ?thesis by simp
      qed
    next
      assume "r' = r"
      with Some have "date_at (drop 0 (c # cs)) = Some r
          \<and> (\<forall>q < 0. date_at (drop q (c # cs)) = None)" by simp
      then show "\<exists>p. date_at (drop p (c # cs)) = Some r
              \<and> (\<forall>q < p. date_at (drop q (c # cs)) = None)" by blast
    qed
    moreover have "\<not> (\<forall>p. date_at (drop p (c # cs)) = None)"
    proof
      assume "\<forall>p. date_at (drop p (c # cs)) = None"
      then have "date_at (drop 0 (c # cs)) = None" by blast
      with Some show False by simp
    qed
    ultimately show ?thesis using Some by simp
  next
    case None
    have shift: "date_at (drop p (c # cs)) = v \<longleftrightarrow>
        (case p of 0 \<Rightarrow> v = None | Suc n \<Rightarrow> date_at (drop n cs) = v)" for p v
      using None by (cases p) auto
    have n: "(\<forall>p. date_at (drop p (c # cs)) = None) \<longleftrightarrow> (\<forall>p. date_at (drop p cs) = None)"
    proof
      assume "\<forall>p. date_at (drop p (c # cs)) = None"
      then have "date_at (drop (Suc p) (c # cs)) = None" for p by blast
      then show "\<forall>p. date_at (drop p cs) = None" by simp
    next
      assume h: "\<forall>p. date_at (drop p cs) = None"
      show "\<forall>p. date_at (drop p (c # cs)) = None"
      proof
        fix p show "date_at (drop p (c # cs)) = None"
          using None h by (cases p) simp_all
      qed
    qed
    have s: "(\<exists>p. date_at (drop p (c # cs)) = Some r
                \<and> (\<forall>q < p. date_at (drop q (c # cs)) = None))
          \<longleftrightarrow> (\<exists>p. date_at (drop p cs) = Some r \<and> (\<forall>q < p. date_at (drop q cs) = None))"
    proof
      assume "\<exists>p. date_at (drop p (c # cs)) = Some r
                \<and> (\<forall>q < p. date_at (drop q (c # cs)) = None)"
      then obtain p where p: "date_at (drop p (c # cs)) = Some r"
        "\<forall>q < p. date_at (drop q (c # cs)) = None" by blast
      from p(1) None obtain n where pn: "p = Suc n" by (cases p) auto
      have "date_at (drop n cs) = Some r" using p(1) pn by simp
      moreover have "date_at (drop q cs) = None" if "q < n" for q
      proof -
        from that pn have "Suc q < p" by simp
        with p(2) have "date_at (drop (Suc q) (c # cs)) = None" by blast
        then show ?thesis by simp
      qed
      ultimately show "\<exists>p. date_at (drop p cs) = Some r
          \<and> (\<forall>q < p. date_at (drop q cs) = None)" by blast
    next
      assume "\<exists>p. date_at (drop p cs) = Some r \<and> (\<forall>q < p. date_at (drop q cs) = None)"
      then obtain n where n: "date_at (drop n cs) = Some r"
        "\<forall>q < n. date_at (drop q cs) = None" by blast
      have "date_at (drop (Suc n) (c # cs)) = Some r" using n(1) by simp
      moreover have "date_at (drop q (c # cs)) = None" if "q < Suc n" for q
        using that None n(2) by (cases q) simp_all
      ultimately show "\<exists>p. date_at (drop p (c # cs)) = Some r
          \<and> (\<forall>q < p. date_at (drop q (c # cs)) = None)" by blast
    qed
    from None have "date_match (c # cs) = date_match cs" by simp
    with Cons.IH n s show ?thesis by simp
  qed
qed

lemma date_shown_date_match:
  "date_shown a (case date_match a of
                   Some (dd, mm, yyyy) \<Rightarrow> dd @ ''/'' @ mm @ ''/'' @ yyyy
                 | None \<Rightarrow> a)"
proof (cases "date_match a")
  case None
  with date_match_first [of a] have "\<forall>p. date_at (drop p a) = None" by simp
  then have "\<forall>p u. \<not> date_at_pos a p u" by (simp add: date_at_pos_iff)
  with None show ?thesis by (simp add: date_shown_def)
next
  case (Some r)
  obtain x y z where r: "r = (x, y, z)" by (cases r)
  from Some date_match_first [of a r] obtain p where
    p: "date_at (drop p a) = Some r" "\<forall>q < p. date_at (drop q a) = None" by blast
  from p(1) r have "date_at_pos a p (x @ ''/'' @ y @ ''/'' @ z)"
    by (auto simp: date_at_pos_iff)
  moreover from p(2) have "\<forall>q < p. \<forall>u. \<not> date_at_pos a q u"
    by (simp add: date_at_pos_iff)
  ultimately show ?thesis using Some r by (auto simp: date_shown_def)
qed

lemma date_shown_unique: "date_shown a t \<Longrightarrow> date_shown a u \<Longrightarrow> t = u"
proof -
  have f: "date_at_pos a p t \<Longrightarrow> date_at_pos a p u \<Longrightarrow> t = u" for p t u
    by (auto simp: date_at_pos_iff)
  assume "date_shown a t" "date_shown a u"
  then show ?thesis
    unfolding date_shown_def
    by (metis f linorder_neqE_nat)
qed

lemma current_week_index:
  assumes "weeks s = Some ws" and "ws \<noteq> []"
  shows "\<exists>k. is_current_index ws k \<and> current_week s = Some (ws ! k)"
proof (cases "find attended ws")
  case None
  then have "\<not> (\<exists>j < length ws. attended (ws ! j))"
    by (auto simp: find_None_iff)
  moreover have "current_week s = Some (ws ! 0)"
    using assms None by (cases ws) (simp_all add: current_week_def)
  ultimately have "is_current_index ws 0 \<and> current_week s = Some (ws ! 0)"
    using assms by (simp add: is_current_index_def)
  then show ?thesis ..
next
  case (Some w)
  then obtain k where k: "k < length ws" "attended (ws ! k)" "w = ws ! k"
    "\<forall>j < k. \<not> attended (ws ! j)"
    by (auto simp: find_Some_iff)
  then have "is_current_index ws k" by (auto simp: is_current_index_def)
  moreover have "current_week s = Some (ws ! k)"
    using assms Some k by (simp add: current_week_def)
  ultimately show ?thesis by blast
qed

lemma digits_small: "n < 10 \<Longrightarrow> digits n = [digit_char n]"
  by (simp add: digits.simps)

lemma digits_two: "10 \<le> n \<Longrightarrow> n < 100 \<Longrightarrow> digits n = [digit_char (n div 10), digit_char (n mod 10)]"
  by (subst digits.simps) (simp add: digits_small)

lemma those_map_Some:
  "(\<And>x. x \<in> set xs \<Longrightarrow> f x = Some (g x)) \<Longrightarrow> those (map f xs) = Some (map g xs)"
  by (induction xs) simp_all


lemma student_catch_undefined:
  "student_catch ''Internal server error'' ''Cannot read properties of undefined''
     = (500, ErrorBody ''Internal server error'')"
  by code_simp

lemma student_catch_match:
  "student_catch ''Internal server error'' ''match is not a function''
     = (500, ErrorBody ''Internal server error'')"
  by code_simp

lemma new_id_greater:
  assumes "t \<in> set ss"
    and "- (2 ^ 53) \<le> Max (sid ` set ss)" and "Max (sid ` set ss) < 2 ^ 53"
  shows "sid t < new_id ss"
proof -
  from assms(1) have ne: "ss \<noteq> []" by auto
  have "sid t \<le> Max (sid ` set ss)" using assms(1) by simp
  with new_id_Max [OF ne assms(2,3)] show ?thesis by simp
qed

lemma find_snoc: "\<forall>x \<in> set xs. \<not> P x \<Longrightarrow> P y \<Longrightarrow> find P (xs @ [y]) = Some y"
  by (induction xs) auto

lemma zero_weeks_Cons: "zero_weeks = zero_week 1 # map zero_week [2..20]"
  by (simp add: zero_weeks_def upto_rec1 [of 1 20])

lemma find_attended_zero_weeks: "find attended zero_weeks = None"
  by (simp add: find_None_iff zero_weeks_def zero_week_def)

lemma current_week_new_student: "current_week (new_student n b) = Some (zero_week 1)"
  by (simp add: current_week_def new_student_def find_attended_zero_weeks zero_weeks_Cons [symmetric])
     (simp add: zero_weeks_Cons)


lemma week_label_two_digits:
  assumes "0 \<le> n" and "n \<le> 99"
  shows "week_label n = two_digit_label n"
proof (cases "nat n < 10")
  case True
  then have "''0123456789'' ! (nat n div 10) = CHR ''0''" by simp
  with True assms show ?thesis
    by (simp add: week_label_def two_digit_label_def js_string_of_int_def padStart_def
        digits_small digit_char_def)
next
  case False
  with assms have "10 \<le> nat n" "nat n < 100" by auto
  with assms show ?thesis
    by (simp add: week_label_def two_digit_label_def js_string_of_int_def padStart_def
        digits_two digit_char_def)
qed

lemma shows_week_flatten: "shows_week (flatten_student s w la) s w"
  by (simp add: shows_week_def flatten_student_def)

lemma label_flatten:
  "0 \<le> week w \<and> week w \<le> 99
   \<longrightarrow> v_attendanceWeek (flatten_student s w la) = two_digit_label (week w)"
  by (simp add: flatten_student_def week_label_two_digits)

lemma center_text_js_to_string: "truthy c \<Longrightarrow> center_text c (js_to_string c)"
  by (cases c) (auto simp: center_text_def)

lemma format_lastAttendance_fails:
  "truthy (lastAttendance w) \<Longrightarrow> truthy (lastAttendanceCenter w)
   \<Longrightarrow> \<forall>a. lastAttendance w \<noteq> JStr a \<Longrightarrow> format_lastAttendance w = None"
  by (cases "lastAttendance w") (simp_all add: format_lastAttendance_def)

lemma format_lastAttendance_unset:
  "\<not> (truthy (lastAttendance w) \<and> truthy (lastAttendanceCenter w))
   \<Longrightarrow> format_lastAttendance w = Some (lastAttendance w)"
  by (auto simp: format_lastAttendance_def)

lemma format_lastAttendance_text:
  assumes "lastAttendance w = JStr a" and "a \<noteq> []" and "truthy (lastAttendanceCenter w)"
  shows "\<exists>t c. date_shown a t \<and> center_text (lastAttendanceCenter w) c
           \<and> format_lastAttendance w = Some (JStr (t @ '' in '' @ c))"
proof -
  let ?t = "case date_match a of
              Some (dd, mm, yyyy) \<Rightarrow> dd @ ''/'' @ mm @ ''/'' @ yyyy
            | None \<Rightarrow> a"
  have "format_lastAttendance w
      = Some (JStr (?t @ '' in '' @ js_to_string (lastAttendanceCenter w)))"
    using assms by (simp add: format_lastAttendance_def)
  with date_shown_date_match [of a] center_text_js_to_string [OF assms(3)]
  show ?thesis by blast
qed

lemma read_one_view:
  assumes "authMiddleware verify (req_authorization req) = Inr user"
    and "req_method req = GET"
    and "find (\<lambda>s. sid s = i) (students d) = Some s"
    and "weeks s = Some ws" and "ws \<noteq> []"
  shows "\<exists>k. is_current_index ws k
             \<and> (if truthy (lastAttendance (ws ! k)) \<and> truthy (lastAttendanceCenter (ws ! k))
                    \<and> (\<forall>a. lastAttendance (ws ! k) \<noteq> JStr a)
                 then student_handler verify i req d
                        = ((500, ErrorBody ''Internal server error''), d)
                 else
                   \<exists>v. student_handler verify i req d = ((200, StudentBody v), d)
                      \<and> shows_week v s (ws ! k) \<and> v_weeks v = ws
                      \<and> (0 \<le> week (ws ! k) \<and> week (ws ! k) \<le> 99
                           \<longrightarrow> v_attendanceWeek v = two_digit_label (week (ws ! k)))
                      \<and> (\<not> (truthy (lastAttendance (ws ! k))
                              \<and> truthy (lastAttendanceCenter (ws ! k)))
                           \<longrightarrow> v_lastAttendance v = lastAttendance (ws ! k))
                      \<and> (\<forall>a. lastAttendance (ws ! k) = JStr a \<and> a \<noteq> []
                               \<and> truthy (lastAttendanceCenter (ws ! k))
                               \<and> (\<forall>n. lastAttendanceCenter (ws ! k) = JNum n
                                      \<longrightarrow> \<bar>n\<bar> < 10 ^ 21)
                           \<longrightarrow> (\<exists>t c. date_shown a t
                                  \<and> center_text (lastAttendanceCenter (ws ! k)) c
                                  \<and> v_lastAttendance v = JStr (t @ '' in '' @ c))))"
proof -
  from current_week_index [OF assms(4,5)] obtain k where
    k: "is_current_index ws k" "current_week s = Some (ws ! k)" by blast
  let ?w = "ws ! k"
  show ?thesis
  proof (cases "truthy (lastAttendance ?w) \<and> truthy (lastAttendanceCenter ?w)
                 \<and> (\<forall>a. lastAttendance ?w \<noteq> JStr a)")
    case True
    then have "format_lastAttendance ?w = None"
      by (simp add: format_lastAttendance_fails)
    with assms k have "student_handler verify i req d
        = ((500, ErrorBody ''Internal server error''), d)"
      by (simp add: student_handler_def student_catch_match)
    then have "if truthy (lastAttendance ?w) \<and> truthy (lastAttendanceCenter ?w)
                 \<and> (\<forall>a. lastAttendance ?w \<noteq> JStr a)
               then student_handler verify i req d
                      = ((500, ErrorBody ''Internal server error''), d)
               else other" for other
      unfolding if_P [OF True] .
    with k(1) show ?thesis by (intro exI [of _ k] conjI)
  next
    case False
    have "\<exists>la. format_lastAttendance ?w = Some la"
    proof (cases "truthy (lastAttendance ?w) \<and> truthy (lastAttendanceCenter ?w)")
      case True
      with False obtain a where a: "lastAttendance ?w = JStr a" by blast
      with True have "a \<noteq> []" by auto
      from format_lastAttendance_text [OF a this] True show ?thesis by blast
    next
      case False
      then show ?thesis by (simp add: format_lastAttendance_unset)
    qed
    then obtain la where la: "format_lastAttendance ?w = Some la" ..
    let ?v = "flatten_student s ?w la"
    from assms k la have h: "student_handler verify i req d = ((200, StudentBody ?v), d)"
      by (simp add: student_handler_def)
    have vla: "v_lastAttendance ?v = la" and vw: "v_weeks ?v = ws"
      using assms(4) by (simp_all add: flatten_student_def)
    have u: "\<not> (truthy (lastAttendance ?w) \<and> truthy (lastAttendanceCenter ?w))
        \<longrightarrow> v_lastAttendance ?v = lastAttendance ?w"
      using la vla by (auto simp: format_lastAttendance_unset)
    have t: "\<forall>a. lastAttendance ?w = JStr a \<and> a \<noteq> [] \<and> truthy (lastAttendanceCenter ?w)
                 \<and> (\<forall>n. lastAttendanceCenter ?w = JNum n \<longrightarrow> \<bar>n\<bar> < 10 ^ 21)
             \<longrightarrow> (\<exists>t c. date_shown a t \<and> center_text (lastAttendanceCenter ?w) c
                    \<and> v_lastAttendance ?v = JStr (t @ '' in '' @ c))"
    proof (intro allI impI)
      fix a
      assume "lastAttendance ?w = JStr a \<and> a \<noteq> [] \<and> truthy (lastAttendanceCenter ?w)
                 \<and> (\<forall>n. lastAttendanceCenter ?w = JNum n \<longrightarrow> \<bar>n\<bar> < 10 ^ 21)"
      then have "lastAttendance ?w = JStr a" "a \<noteq> []" "truthy (lastAttendanceCenter ?w)"
        by simp_all
      from format_lastAttendance_text [OF this] la vla
      show "\<exists>t c. date_shown a t \<and> center_text (lastAttendanceCenter ?w) c
                    \<and> v_lastAttendance ?v = JStr (t @ '' in '' @ c)"
        by auto
    qed
    from h shows_week_flatten [of s ?w la] vw label_flatten [of ?w s la] u t
    have "\<exists>v. student_handler verify i req d = ((200, StudentBody v), d)
            \<and> shows_week v s ?w \<and> v_weeks v = ws
            \<and> (0 \<le> week ?w \<and> week ?w \<le> 99 \<longrightarrow> v_attendanceWeek v = two_digit_label (week ?w))
            \<and> (\<not> (truthy (lastAttendance ?w) \<and> truthy (lastAttendanceCenter ?w))
                 \<longrightarrow> v_lastAttendance v = lastAttendance ?w)
            \<and> (\<forall>a. lastAttendance ?w = JStr a \<and> a \<noteq> [] \<and> truthy (lastAttendanceCenter ?w)
                     \<and> (\<forall>n. lastAttendanceCenter ?w = JNum n \<longrightarrow> \<bar>n\<bar> < 10 ^ 21)
                 \<longrightarrow> (\<exists>t c. date_shown a t \<and> center_text (lastAttendanceCenter ?w) c
                        \<and> v_lastAttendance v = JStr (t @ '' in '' @ c)))"
      by (intro exI [of _ ?v] conjI)
    then have "if truthy (lastAttendance ?w) \<and> truthy (lastAttendanceCenter ?w)
                 \<and> (\<forall>a. lastAttendance ?w \<noteq> JStr a)
               then student_handler verify i req d
                      = ((500, ErrorBody ''Internal server error''), d)
               else
                 \<exists>v. student_handler verify i req d = ((200, StudentBody v), d)
            \<and> shows_week v s ?w \<and> v_weeks v = ws
            \<and> (0 \<le> week ?w \<and> week ?w \<le> 99 \<longrightarrow> v_attendanceWeek v = two_digit_label (week ?w))
            \<and> (\<not> (truthy (lastAttendance ?w) \<and> truthy (lastAttendanceCenter ?w))
                 \<longrightarrow> v_lastAttendance v = lastAttendance ?w)
            \<and> (\<forall>a. lastAttendance ?w = JStr a \<and> a \<noteq> [] \<and> truthy (lastAttendanceCenter ?w)
                     \<and> (\<forall>n. lastAttendanceCenter ?w = JNum n \<longrightarrow> \<bar>n\<bar> < 10 ^ 21)
                 \<longrightarrow> (\<exists>t c. date_shown a t \<and> center_text (lastAttendanceCenter ?w) c
                        \<and> v_lastAttendance v = JStr (t @ '' in '' @ c)))"
      unfolding if_not_P [OF False] .
    with k(1) show ?thesis by (intro exI [of _ k] conjI)
  qed
qed


lemma read_all_views:
  assumes "authMiddleware verify (req_authorization req) = Inr user"
    and "req_method req = GET"
    and "list_all (\<lambda>t. weeks t \<noteq> Some []) (students d)"
  shows "\<exists>vs. students_handler verify req d = ((200, StudentsBody vs), d)
             \<and> length vs = length (students d)
             \<and> (\<forall>n < length vs.
                   case weeks (students d ! n) of
                     None \<Rightarrow> shows_week (vs ! n) (students d ! n) (zero_week 1)
                             \<and> v_attendanceWeek (vs ! n) = two_digit_label 1
                   | Some ws \<Rightarrow>
                       \<exists>k. is_current_index ws k
                          \<and> shows_week (vs ! n) (students d ! n) (ws ! k)
                          \<and> v_lastAttendance (vs ! n) = lastAttendance (ws ! k)
                          \<and> (0 \<le> week (ws ! k) \<and> week (ws ! k) \<le> 99
                               \<longrightarrow> v_attendanceWeek (vs ! n) = two_digit_label (week (ws ! k))))"
proof -
  define cw where "cw t = (case current_week t of Some w \<Rightarrow> w | None \<Rightarrow> zero_week 1)" for t
  define g where "g t = flatten_student t (cw t) (lastAttendance (cw t))" for t
  have some: "current_week t = Some (cw t)" if "t \<in> set (students d)" for t
  proof (cases "weeks t")
    case None
    then show ?thesis by (simp add: cw_def current_week_def)
  next
    case (Some ws)
    with that assms(3) have "ws \<noteq> []" by (auto simp: list_all_iff)
    from current_week_index [OF Some this] show ?thesis by (auto simp: cw_def)
  qed
  have "map_students (students d) = Some (map g (students d))"
    unfolding map_students_def by (rule those_map_Some) (simp add: some g_def)
  with assms have h: "students_handler verify req d = ((200, StudentsBody (map g (students d))), d)"
    by (simp add: students_handler_def)
  have each: "case weeks t of
                None \<Rightarrow> shows_week (g t) t (zero_week 1)
                \<and> v_attendanceWeek (g t) = two_digit_label 1
              | Some ws \<Rightarrow>
                  \<exists>k. is_current_index ws k \<and> shows_week (g t) t (ws ! k)
                     \<and> v_lastAttendance (g t) = lastAttendance (ws ! k)
                     \<and> (0 \<le> week (ws ! k) \<and> week (ws ! k) \<le> 99
                          \<longrightarrow> v_attendanceWeek (g t) = two_digit_label (week (ws ! k)))"
    if "t \<in> set (students d)" for t
  proof (cases "weeks t")
    case None
    then have "cw t = zero_week 1" by (simp add: cw_def current_week_def)
    moreover have "week (zero_week 1) = 1" by (simp add: zero_week_def)
    ultimately have "shows_week (g t) t (zero_week 1)"
      and "v_attendanceWeek (g t) = two_digit_label 1"
      using label_flatten [of "zero_week 1" t "lastAttendance (zero_week 1)"]
      by (simp_all add: g_def shows_week_flatten)
    with None show ?thesis by simp
  next
    case (Some ws)
    with that assms(3) have "ws \<noteq> []" by (auto simp: list_all_iff)
    from current_week_index [OF Some this] obtain k where
      k: "is_current_index ws k" "current_week t = Some (ws ! k)" by blast
    then have c: "cw t = ws ! k" by (simp add: cw_def)
    have "shows_week (g t) t (ws ! k)"
      and "v_lastAttendance (g t) = lastAttendance (ws ! k)"
      and "0 \<le> week (ws ! k) \<and> week (ws ! k) \<le> 99
           \<longrightarrow> v_attendanceWeek (g t) = two_digit_label (week (ws ! k))"
      using label_flatten [of "ws ! k" t "lastAttendance (ws ! k)"]
      by (simp_all add: g_def c shows_week_flatten) (simp add: flatten_student_def)
    with k(1) have "\<exists>k. is_current_index ws k \<and> shows_week (g t) t (ws ! k)
                     \<and> v_lastAttendance (g t) = lastAttendance (ws ! k)
                     \<and> (0 \<le> week (ws ! k) \<and> week (ws ! k) \<le> 99
                          \<longrightarrow> v_attendanceWeek (g t) = two_digit_label (week (ws ! k)))"
      by (intro exI [of _ k] conjI)
    with Some show ?thesis by simp
  qed
  have "\<forall>n < length (map g (students d)).
          case weeks (students d ! n) of
                None \<Rightarrow> shows_week (map g (students d) ! n) (students d ! n) (zero_week 1)
                \<and> v_attendanceWeek (map g (students d) ! n) = two_digit_label 1
              | Some ws \<Rightarrow>
                  \<exists>k. is_current_index ws k \<and> shows_week (map g (students d) ! n) (students d ! n) (ws ! k)
                     \<and> v_lastAttendance (map g (students d) ! n) = lastAttendance (ws ! k)
                     \<and> (0 \<le> week (ws ! k) \<and> week (ws ! k) \<le> 99
                          \<longrightarrow> v_attendanceWeek (map g (students d) ! n) = two_digit_label (week (ws ! k)))"
  proof (intro allI impI)
    fix n assume "n < length (map g (students d))"
    then have n: "n < length (students d)" by simp
    then have "students d ! n \<in> set (students d)" by simp
    from each [OF this] show "case weeks (students d ! n) of
                None \<Rightarrow> shows_week (map g (students d) ! n) (students d ! n) (zero_week 1)
                \<and> v_attendanceWeek (map g (students d) ! n) = two_digit_label 1
              | Some ws \<Rightarrow>
                  \<exists>k. is_current_index ws k \<and> shows_week (map g (students d) ! n) (students d ! n) (ws ! k)
                     \<and> v_lastAttendance (map g (students d) ! n) = lastAttendance (ws ! k)
                     \<and> (0 \<le> week (ws ! k) \<and> week (ws ! k) \<le> 99
                          \<longrightarrow> v_attendanceWeek (map g (students d) ! n) = two_digit_label (week (ws ! k)))"
      by (simp only: nth_map [OF n])
  qed
  with h show ?thesis by (intro exI [of _ "map g (students d)"]) simp
qed

lemma fresh_student_read:
  assumes "authMiddleware verify (req_authorization req) = Inr user"
    and "req_method req = GET"
    and "req_method creq = POST"
    and "authMiddleware verify (req_authorization creq) = Inr cuser"
    and "\<not> missing_field (req_body creq)"
    and "students d = []
           \<or> (- (2 ^ 53) \<le> Max (sid ` set (students d))
              \<and> Max (sid ` set (students d)) < 2 ^ 53)"
  shows "\<exists>m v. fst (students_handler verify creq d) = (200, NewId m)
             \<and> student_handler verify m req (snd (students_handler verify creq d))
                 = ((200, StudentBody v), snd (students_handler verify creq d))
             \<and> v_id v = m \<and> \<not> v_attended_the_session v \<and> v_attendanceWeek v = ''week 01''"
proof -
  let ?n = "new_id (students d)"
  let ?st = "new_student ?n (req_body creq)"
  let ?d = "d\<lparr>students := students d @ [?st]\<rparr>"
  have c: "students_handler verify creq d = ((200, NewId ?n), ?d)"
    using assms(3-5) by (simp add: students_handler_def Let_def insertOne_def)
  have "\<forall>t \<in> set (students d). \<not> sid t = ?n"
  proof
    fix t assume t: "t \<in> set (students d)"
    then have "students d \<noteq> []" by auto
    with assms(6) have "- (2 ^ 53) \<le> Max (sid ` set (students d))"
      and "Max (sid ` set (students d)) < 2 ^ 53" by simp_all
    from new_id_greater [OF t this] show "\<not> sid t = ?n" by simp
  qed
  moreover have "sid ?st = ?n" by (simp add: new_student_def)
  ultimately have f: "find (\<lambda>s. sid s = ?n) (students ?d) = Some ?st"
    by (simp add: find_snoc)
  have fl: "format_lastAttendance (zero_week 1) = Some JNull"
    by (simp add: format_lastAttendance_def zero_week_def)
  have r: "student_handler verify ?n req ?d
      = ((200, StudentBody (flatten_student ?st (zero_week 1) JNull)), ?d)"
    using assms(1,2) f by (simp add: student_handler_def current_week_new_student fl)
  have "week_label 1 = ''week 01''" by code_simp
  then have "\<not> v_attended_the_session (flatten_student ?st (zero_week 1) JNull)"
    and "v_attendanceWeek (flatten_student ?st (zero_week 1) JNull) = ''week 01''"
    and "v_id (flatten_student ?st (zero_week 1) JNull) = ?n"
    by (simp_all add: flatten_student_def zero_week_def new_student_def)
  with c r show ?thesis by (metis fst_conv snd_conv)
qed

text \<open>
  C7, as the code has it, for an authenticated GET. Reading one student whose weeks are
  not empty takes the week at the current index (the first attended week, else index 0).
  When that week's \<^verbatim>\<open>lastAttendance\<close> is set and not a text while its center is set, the
  answer is 500. Otherwise the answer is 200 with the profile and the fields of that week,
  the whole weeks array, the label \<^verbatim>\<open>week\<close> and two digits for a week number from 0 to
  99, and \<^verbatim>\<open>lastAttendance\<close> as stored when it or the center is unset, else as the
  first date of the stored text written with slashes (the whole text when it holds no
  date), \<^verbatim>\<open>in\<close> and the center. Reading all students, none with an empty weeks array,
  answers 200 with the same for every student and \<^verbatim>\<open>lastAttendance\<close> as stored. When
  the greatest id lies in the range where adding one is exact, reading a student right
  after creating it shows its id, \<^verbatim>\<open>attended_the_session = false\<close> and
  \<^verbatim>\<open>attendanceWeek = "week 01"\<close>.
\<close>

theorem current_week_view:
  assumes "authMiddleware verify (req_authorization req) = Inr user"
    and "req_method req = GET"
  shows "(find (\<lambda>s. sid s = i) (students d) = Some s \<and> weeks s = Some ws \<and> ws \<noteq> []
          \<longrightarrow> (\<exists>k. is_current_index ws k
             \<and> (if truthy (lastAttendance (ws ! k)) \<and> truthy (lastAttendanceCenter (ws ! k))
                    \<and> (\<forall>a. lastAttendance (ws ! k) \<noteq> JStr a)
                 then student_handler verify i req d
                        = ((500, ErrorBody ''Internal server error''), d)
                 else
                   \<exists>v. student_handler verify i req d = ((200, StudentBody v), d)
                      \<and> shows_week v s (ws ! k) \<and> v_weeks v = ws
                      \<and> (0 \<le> week (ws ! k) \<and> week (ws ! k) \<le> 99
                           \<longrightarrow> v_attendanceWeek v = two_digit_label (week (ws ! k)))
                      \<and> (\<not> (truthy (lastAttendance (ws ! k))
                              \<and> truthy (lastAttendanceCenter (ws ! k)))
                           \<longrightarrow> v_lastAttendance v = lastAttendance (ws ! k))
                      \<and> (\<forall>a. lastAttendance (ws ! k) = JStr a \<and> a \<noteq> []
                               \<and> truthy (lastAttendanceCenter (ws ! k))
                               \<and> (\<forall>n. lastAttendanceCenter (ws ! k) = JNum n
                                      \<longrightarrow> \<bar>n\<bar> < 10 ^ 21)
                           \<longrightarrow> (\<exists>t c. date_shown a t
                                  \<and> center_text (lastAttendanceCenter (ws ! k)) c
                                  \<and> v_lastAttendance v = JStr (t @ '' in '' @ c))))))
       \<and> (list_all (\<lambda>t. weeks t \<noteq> Some []) (students d)
          \<longrightarrow> (\<exists>vs. students_handler verify req d = ((200, StudentsBody vs), d)
             \<and> length vs = length (students d)
             \<and> (\<forall>n < length vs.
                   case weeks (students d ! n) of
                     None \<Rightarrow> shows_week (vs ! n) (students d ! n) (zero_week 1)
                             \<and> v_attendanceWeek (vs ! n) = two_digit_label 1
                   | Some ws \<Rightarrow>
                       \<exists>k. is_current_index ws k
                          \<and> shows_week (vs ! n) (students d ! n) (ws ! k)
                          \<and> v_lastAttendance (vs ! n) = lastAttendance (ws ! k)
                          \<and> (0 \<le> week (ws ! k) \<and> week (ws ! k) \<le> 99
                               \<longrightarrow> v_attendanceWeek (vs ! n) = two_digit_label (week (ws ! k))))))
       \<and> (req_method creq = POST
          \<and> authMiddleware verify (req_authorization creq) = Inr cuser
          \<and> \<not> missing_field (req_body creq)
          \<and> (students d = []
           \<or> (- (2 ^ 53) \<le> Max (sid ` set (students d))
              \<and> Max (sid ` set (students d)) < 2 ^ 53))
          \<longrightarrow> (\<exists>m v. fst (students_handler verify creq d) = (200, NewId m)
             \<and> student_handler verify m req (snd (students_handler verify creq d))
                 = ((200, StudentBody v), snd (students_handler verify creq d))
             \<and> v_id v = m \<and> \<not> v_attended_the_session v \<and> v_attendanceWeek v = ''week 01''))"
proof (intro conjI impI)
  assume "find (\<lambda>s. sid s = i) (students d) = Some s \<and> weeks s = Some ws \<and> ws \<noteq> []"
  then have "find (\<lambda>s. sid s = i) (students d) = Some s" "weeks s = Some ws" "ws \<noteq> []"
    by simp_all
  then show "\<exists>k. is_current_index ws k
             \<and> (if truthy (lastAttendance (ws ! k)) \<and> truthy (lastAttendanceCenter (ws ! k))
                    \<and> (\<forall>a. lastAttendance (ws ! k) \<noteq> JStr a)
                 then student_handler verify i req d
                        = ((500, ErrorBody ''Internal server error''), d)
                 else
                   \<exists>v. student_handler verify i req d = ((200, StudentBody v), d)
                      \<and> shows_week v s (ws ! k) \<and> v_weeks v = ws
                      \<and> (0 \<le> week (ws ! k) \<and> week (ws ! k) \<le> 99
                           \<longrightarrow> v_attendanceWeek v = two_digit_label (week (ws ! k)))
                      \<and> (\<not> (truthy (lastAttendance (ws ! k))
                              \<and> truthy (lastAttendanceCenter (ws ! k)))
                           \<longrightarrow> v_lastAttendance v = lastAttendance (ws ! k))
                      \<and> (\<forall>a. lastAttendance (ws ! k) = JStr a \<and> a \<noteq> []
                               \<and> truthy (lastAttendanceCenter (ws ! k))
                               \<and> (\<forall>n. lastAttendanceCenter (ws ! k) = JNum n
                                      \<longrightarrow> \<bar>n\<bar> < 10 ^ 21)
                           \<longrightarrow> (\<exists>t c. date_shown a t
                                  \<and> center_text (lastAttendanceCenter (ws ! k)) c
                                  \<and> v_lastAttendance v = JStr (t @ '' in '' @ c))))"
    by (rule read_one_view [OF assms])
next
  assume "list_all (\<lambda>t. weeks t \<noteq> Some []) (students d)"
  then show "\<exists>vs. students_handler verify req d = ((200, StudentsBody vs), d)
             \<and> length vs = length (students d)
             \<and> (\<forall>n < length vs.
                   case weeks (students d ! n) of
                     None \<Rightarrow> shows_week (vs ! n) (students d ! n) (zero_week 1)
                             \<and> v_attendanceWeek (vs ! n) = two_digit_label 1
                   | Some ws \<Rightarrow>
                       \<exists>k. is_current_index ws k
                          \<and> shows_week (vs ! n) (students d ! n) (ws ! k)
                          \<and> v_lastAttendance (vs ! n) = lastAttendance (ws ! k)
                          \<and> (0 \<le> week (ws ! k) \<and> week (ws ! k) \<le> 99
                               \<longrightarrow> v_attendanceWeek (vs ! n) = two_digit_label (week (ws ! k))))"
    by (rule read_all_views [OF assms])
next
  assume "req_method creq = POST
          \<and> authMiddleware verify (req_authorization creq) = Inr cuser
          \<and> \<not> missing_field (req_body creq)
          \<and> (students d = []
           \<or> (- (2 ^ 53) \<le> Max (sid ` set (students d))
              \<and> Max (sid ` set (students d)) < 2 ^ 53))"
  then have "req_method creq = POST"
    "authMiddleware verify (req_authorization creq) = Inr cuser"
    "\<not> missing_field (req_body creq)"
    "students d = []
           \<or> (- (2 ^ 53) \<le> Max (sid ` set (students d))
              \<and> Max (sid ` set (students d)) < 2 ^ 53)"
    by simp_all
  then show "\<exists>m v. fst (students_handler verify creq d) = (200, NewId m)
             \<and> student_handler verify m req (snd (students_handler verify creq d))
                 = ((200, StudentBody v), snd (students_handler verify creq d))
             \<and> v_id v = m \<and> \<not> v_attended_the_session v \<and> v_attendanceWeek v = ''week 01''"
    by (rule fresh_student_read [OF assms])
qed

theorem current_week_view_witness:
  "authMiddleware sample_verify (req_authorization get_student) = Inr sample_claims
   \<and> req_method get_student = GET
   \<and> (find (\<lambda>s. sid s = 1) (students dash_db) = Some dash_student
      \<and> weeks dash_student = Some dash_weeks \<and> dash_weeks \<noteq> [])
   \<and> (find (\<lambda>s. sid s = 1) (students number_db) = Some number_student
      \<and> weeks number_student = Some number_weeks \<and> number_weeks \<noteq> [])
   \<and> list_all (\<lambda>t. weeks t \<noteq> Some []) (students dash_db)
   \<and> (req_method create_ali = POST
      \<and> authMiddleware sample_verify (req_authorization create_ali) = Inr sample_claims
      \<and> \<not> missing_field (req_body create_ali)
      \<and> (students dash_db = []
           \<or> (- (2 ^ 53) \<le> Max (sid ` set (students dash_db))
              \<and> Max (sid ` set (students dash_db)) < 2 ^ 53)))
   \<and> (\<exists>k. is_current_index dash_weeks k
             \<and> (if truthy (lastAttendance (dash_weeks ! k)) \<and> truthy (lastAttendanceCenter (dash_weeks ! k))
                    \<and> (\<forall>a. lastAttendance (dash_weeks ! k) \<noteq> JStr a)
                 then student_handler sample_verify 1 get_student dash_db
                        = ((500, ErrorBody ''Internal server error''), dash_db)
                 else
                   \<exists>v. student_handler sample_verify 1 get_student dash_db = ((200, StudentBody v), dash_db)
                      \<and> shows_week v dash_student (dash_weeks ! k) \<and> v_weeks v = dash_weeks
                      \<and> (0 \<le> week (dash_weeks ! k) \<and> week (dash_weeks ! k) \<le> 99
                           \<longrightarrow> v_attendanceWeek v = two_digit_label (week (dash_weeks ! k)))
                      \<and> (\<not> (truthy (lastAttendance (dash_weeks ! k))
                              \<and> truthy (lastAttendanceCenter (dash_weeks ! k)))
                           \<longrightarrow> v_lastAttendance v = lastAttendance (dash_weeks ! k))
                      \<and> (\<forall>a. lastAttendance (dash_weeks ! k) = JStr a \<and> a \<noteq> []
                               \<and> truthy (lastAttendanceCenter (dash_weeks ! k))
                               \<and> (\<forall>n. lastAttendanceCenter (dash_weeks ! k) = JNum n
                                      \<longrightarrow> \<bar>n\<bar> < 10 ^ 21)
                           \<longrightarrow> (\<exists>t c. date_shown a t
                                  \<and> center_text (lastAttendanceCenter (dash_weeks ! k)) c
                                  \<and> v_lastAttendance v = JStr (t @ '' in '' @ c)))))
   \<and> (\<exists>k. is_current_index number_weeks k
             \<and> (if truthy (lastAttendance (number_weeks ! k)) \<and> truthy (lastAttendanceCenter (number_weeks ! k))
                    \<and> (\<forall>a. lastAttendance (number_weeks ! k) \<noteq> JStr a)
                 then student_handler sample_verify 1 get_student number_db
                        = ((500, ErrorBody ''Internal server error''), number_db)
                 else
                   \<exists>v. student_handler sample_verify 1 get_student number_db = ((200, StudentBody v), number_db)
                      \<and> shows_week v number_student (number_weeks ! k) \<and> v_weeks v = number_weeks
                      \<and> (0 \<le> week (number_weeks ! k) \<and> week (number_weeks ! k) \<le> 99
                           \<longrightarrow> v_attendanceWeek v = two_digit_label (week (number_weeks ! k)))
                      \<and> (\<not> (truthy (lastAttendance (number_weeks ! k))
                              \<and> truthy (lastAttendanceCenter (number_weeks ! k)))
                           \<longrightarrow> v_lastAttendance v = lastAttendance (number_weeks ! k))
                      \<and> (\<forall>a. lastAttendance (number_weeks ! k) = JStr a \<and> a \<noteq> []
                               \<and> truthy (lastAttendanceCenter (number_weeks ! k))
                               \<and> (\<forall>n. lastAttendanceCenter (number_weeks ! k) = JNum n
                                      \<longrightarrow> \<bar>n\<bar> < 10 ^ 21)
                           \<longrightarrow> (\<exists>t c. date_shown a t
                                  \<and> center_text (lastAttendanceCenter (number_weeks ! k)) c
                                  \<and> v_lastAttendance v = JStr (t @ '' in '' @ c)))))
   \<and> (\<exists>vs. students_handler sample_verify get_student dash_db = ((200, StudentsBody vs), dash_db)
             \<and> length vs = length (students dash_db)
             \<and> (\<forall>n < length vs.
                   case weeks (students dash_db ! n) of
                     None \<Rightarrow> shows_week (vs ! n) (students dash_db ! n) (zero_week 1)
                             \<and> v_attendanceWeek (vs ! n) = two_digit_label 1
                   | Some ws \<Rightarrow>
                       \<exists>k. is_current_index ws k
                          \<and> shows_week (vs ! n) (students dash_db ! n) (ws ! k)
                          \<and> v_lastAttendance (vs ! n) = lastAttendance (ws ! k)
                          \<and> (0 \<le> week (ws ! k) \<and> week (ws ! k) \<le> 99
                               \<longrightarrow> v_attendanceWeek (vs ! n) = two_digit_label (week (ws ! k)))))
   \<and> (\<exists>m v. fst (students_handler sample_verify create_ali dash_db) = (200, NewId m)
             \<and> student_handler sample_verify m get_student (snd (students_handler sample_verify create_ali dash_db))
                 = ((200, StudentBody v), snd (students_handler sample_verify create_ali dash_db))
             \<and> v_id v = m \<and> \<not> v_attended_the_session v \<and> v_attendanceWeek v = ''week 01'')
   \<and> is_current_index dash_weeks 2
   \<and> student_handler sample_verify 1 get_student number_db
       = ((500, ErrorBody ''Internal server error''), number_db)"
proof -
  have h1: "authMiddleware sample_verify (req_authorization get_student) = Inr sample_claims"
    by code_simp
  have h2: "req_method get_student = GET" by code_simp
  have h3: "find (\<lambda>s. sid s = 1) (students dash_db) = Some dash_student
      \<and> weeks dash_student = Some dash_weeks \<and> dash_weeks \<noteq> []"
    by code_simp
  have h3n: "find (\<lambda>s. sid s = 1) (students number_db) = Some number_student
      \<and> weeks number_student = Some number_weeks \<and> number_weeks \<noteq> []"
    by code_simp
  have h4: "list_all (\<lambda>t. weeks t \<noteq> Some []) (students dash_db)" by code_simp
  have e: "Max (sid ` set (students dash_db)) = 1" by code_simp
  have h6: "req_method create_ali = POST
      \<and> authMiddleware sample_verify (req_authorization create_ali) = Inr sample_claims
      \<and> \<not> missing_field (req_body create_ali)
      \<and> (students dash_db = []
           \<or> (- (2 ^ 53) \<le> Max (sid ` set (students dash_db))
              \<and> Max (sid ` set (students dash_db)) < 2 ^ 53))"
    unfolding e by code_simp
  have x1: "is_current_index dash_weeks 2" by code_simp
  have x2: "student_handler sample_verify 1 get_student number_db
       = ((500, ErrorBody ''Internal server error''), number_db)"
    by code_simp
  note t = current_week_view [OF h1 h2, where i = 1 and d = dash_db and s = dash_student
      and ws = dash_weeks and creq = create_ali and cuser = sample_claims]
  note tn = current_week_view [OF h1 h2, where i = 1 and d = number_db and s = number_student
      and ws = number_weeks and creq = create_ali and cuser = sample_claims]
  note p1 = t [THEN conjunct1, THEN mp, OF h3]
  note p1n = tn [THEN conjunct1, THEN mp, OF h3n]
  note p2 = t [THEN conjunct2, THEN conjunct1, THEN mp, OF h4]
  note p4 = t [THEN conjunct2, THEN conjunct2, THEN mp, OF h6]
  note h3s = h3 [THEN conjunct1] h3 [THEN conjunct2, THEN conjunct1]
    h3 [THEN conjunct2, THEN conjunct2]
  note h3ns = h3n [THEN conjunct1] h3n [THEN conjunct2, THEN conjunct1]
    h3n [THEN conjunct2, THEN conjunct2]
  note h6s = h6 [THEN conjunct1] h6 [THEN conjunct2, THEN conjunct1]
    h6 [THEN conjunct2, THEN conjunct2, THEN conjunct1]
    h6 [THEN conjunct2, THEN conjunct2, THEN conjunct2]
  from h1 h2 h3s h3ns h4 h6s p1 p1n p2 p4 x1 x2 show ?thesis by (intro conjI)
qed

text \<open>
  C7 as stated fails for \<^verbatim>\<open>lastAttendance\<close> in the read of one student: week 3 is the
  current week and stores \<^verbatim>\<open>05-03-2025\<close>, the view shows \<^verbatim>\<open>05/03/2025 in Giza\<close>.
\<close>

theorem read_one_reformats_lastAttendance_counterexample:
  "find (\<lambda>s. sid s = 1) (students dash_db) = Some dash_student
   \<and> current_week dash_student = Some (dash_weeks ! 2)
   \<and> attended (dash_weeks ! 2)
   \<and> lastAttendance (dash_weeks ! 2) = JStr ''05-03-2025''
   \<and> (case fst (student_handler sample_verify 1 get_student dash_db) of
         (code, StudentBody v) \<Rightarrow>
            code = 200 \<and> v_attended_the_session v \<and> v_attendanceWeek v = ''week 03''
            \<and> v_lastAttendance v = JStr ''05/03/2025 in Giza''
       | _ \<Rightarrow> False)"
  by code_simp

end
